theory Spec2Isabelle
  imports Main "HOL-Library.Sublist"
begin

section \<open>Values, exceptions and the outside world\<close>

text \<open>
  The handler of \<^verbatim>\<open>lambda_function.py\<close> works on values that come out of JSON
  documents (the S3 event, the bodies of the HTTP replies), so the Python values of the
  model are JSON values. A Python \<^verbatim>\<open>dict\<close> is an association list read with
  \<open>map_of\<close>; a Python \<^verbatim>\<open>str\<close> is a \<open>string\<close>, one \<open>char\<close> for each Python
  character. A float is kept as the decimal it is written with (mantissa and exponent of
  ten), so \<^verbatim>\<open>0.7\<close> is \<open>JFloat 7 (-1)\<close>.
\<close>

datatype json =
    JNull
  | JBool bool
  | JInt int
  | JFloat int int
  | JStr string
  | JList "json list"
  | JObj "(string \<times> json) list"

text \<open>
  Every \<^verbatim>\<open>raise\<close> of the source and every exception raised by the interpreter or by
  a library call is a value of \<open>exn\<close>. All of them are subclasses of Python's
  \<^verbatim>\<open>Exception\<close>. \<open>RequestException\<close> stands for the whole class
  \<^verbatim>\<open>requests.exceptions.RequestException\<close> (connection errors, timeouts, the
  \<^verbatim>\<open>HTTPError\<close> of \<^verbatim>\<open>raise_for_status\<close>, the decoding error of
  \<^verbatim>\<open>response.json()\<close>); \<open>StorageError\<close> for whatever the S3 client, the read of the
  body or its UTF-8 decoding raises.
\<close>

datatype exn =
    KeyError json
  | IndexError string
  | TypeError string
  | AttributeError string
  | ValueError string
  | TimeoutError string
  | RequestException string
  | StorageError string

text \<open>
  Library functions whose inside no property below depends on are parameters of the model:
  \<^verbatim>\<open>json.dumps\<close>, Python's \<^verbatim>\<open>repr\<close> of a value, and
  \<^verbatim>\<open>urllib.parse.unquote_plus\<close> on a \<^verbatim>\<open>str\<close>.
\<close>

record pylib =
  json_dumps :: "json \<Rightarrow> string"
  py_repr :: "json \<Rightarrow> string"
  unquote_plus_str :: "string \<Rightarrow> string"

datatype http_outcome =
    RequestFailed string
  | Replied json

type_synonym headers = "(string \<times> string) list"

text \<open>
  The outside world answers the four external calls. \<open>requests_get\<close> takes the number of
  the poll attempt (from 0), since the status of a job changes between attempts.
  \<open>s3_get_object\<close> gives the decoded text of the object, or the exception raised on the
  way; \<open>s3_put_object\<close> gives the exception raised, if any.
\<close>

record world =
  s3_get_object :: "json \<Rightarrow> string \<Rightarrow> exn + string"
  requests_post :: "string \<Rightarrow> headers \<Rightarrow> json \<Rightarrow> http_outcome"
  requests_get :: "nat \<Rightarrow> string \<Rightarrow> headers \<Rightarrow> http_outcome"
  s3_put_object :: "json \<Rightarrow> string \<Rightarrow> string \<Rightarrow> string \<Rightarrow> exn option"

text \<open>
  What the handler does to the outside world is recorded, in order. \<^verbatim>\<open>print\<close> is
  not recorded.
\<close>

datatype effect =
    S3Get json string
  | HttpPost string headers json
  | HttpGet string headers
  | Sleep nat
  | S3Put json string string string

type_synonym 'a res = "(exn + 'a) \<times> effect list"

definition bind_eff :: "'a res \<Rightarrow> ('a \<Rightarrow> 'b res) \<Rightarrow> 'b res" where
  "bind_eff m f =
     (case m of
        (Inl e, tr) \<Rightarrow> (Inl e, tr)
      | (Inr a, tr) \<Rightarrow> (case f a of (r, tr') \<Rightarrow> (r, tr @ tr')))"

definition pure_eff :: "exn + 'a \<Rightarrow> 'a res" where
  "pure_eff r = (r, [])"

section \<open>Configuration\<close>

type_synonym environ = "string \<rightharpoonup> string"

definition RUNPOD_API_KEY :: "environ \<Rightarrow> string option" where
  "RUNPOD_API_KEY environ = environ ''RUNPOD_API_KEY''"

definition RUNPOD_ENDPOINT_URL :: "environ \<Rightarrow> string option" where
  "RUNPOD_ENDPOINT_URL environ = environ ''RUNPOD_ENDPOINT_URL''"

definition OUTPUT_BUCKET :: "environ \<Rightarrow> string" where
  "OUTPUT_BUCKET environ = (case environ ''OUTPUT_BUCKET'' of None \<Rightarrow> '''' | Some v \<Rightarrow> v)"

definition OUTPUT_PREFIX :: "environ \<Rightarrow> string" where
  "OUTPUT_PREFIX environ =
     (case environ ''OUTPUT_PREFIX'' of None \<Rightarrow> ''summaries/'' | Some v \<Rightarrow> v)"

definition MAX_TOKENS :: int where
  "MAX_TOKENS = 16000"

definition POLL_INTERVAL :: nat where
  "POLL_INTERVAL = 5"

definition MAX_POLLING_ATTEMPTS :: nat where
  "MAX_POLLING_ATTEMPTS = 60"

section \<open>The Python operations the source uses\<close>

text \<open>Truth value of an optional string: \<^verbatim>\<open>None\<close> and \<^verbatim>\<open>""\<close> are false.\<close>

definition truthy :: "string option \<Rightarrow> bool" where
  "truthy v = (case v of None \<Rightarrow> False | Some s \<Rightarrow> s \<noteq> [])"

text \<open>An optional string inside an f-string.\<close>

definition str_opt :: "string option \<Rightarrow> string" where
  "str_opt v = (case v of None \<Rightarrow> ''None'' | Some s \<Rightarrow> s)"

text \<open>\<^verbatim>\<open>str(v)\<close>: a string is itself, any other value is its \<^verbatim>\<open>repr\<close>.\<close>

definition py_str :: "pylib \<Rightarrow> json \<Rightarrow> string" where
  "py_str lib v = (case v of JStr s \<Rightarrow> s | _ \<Rightarrow> py_repr lib v)"

definition type_name :: "json \<Rightarrow> string" where
  "type_name v =
     (case v of
        JNull \<Rightarrow> ''NoneType''
      | JBool _ \<Rightarrow> ''bool''
      | JInt _ \<Rightarrow> ''int''
      | JFloat _ _ \<Rightarrow> ''float''
      | JStr _ \<Rightarrow> ''str''
      | JList _ \<Rightarrow> ''list''
      | JObj _ \<Rightarrow> ''dict'')"

text \<open>\<^verbatim>\<open>str(e)\<close> of an exception: its message; of a \<^verbatim>\<open>KeyError\<close>, the repr of the key.\<close>

definition exn_str :: "pylib \<Rightarrow> exn \<Rightarrow> string" where
  "exn_str lib e =
     (case e of
        KeyError k \<Rightarrow> py_repr lib k
      | IndexError m \<Rightarrow> m
      | TypeError m \<Rightarrow> m
      | AttributeError m \<Rightarrow> m
      | ValueError m \<Rightarrow> m
      | TimeoutError m \<Rightarrow> m
      | RequestException m \<Rightarrow> m
      | StorageError m \<Rightarrow> m)"

text \<open>\<^verbatim>\<open>v[k]\<close> with a string \<open>k\<close>.\<close>

definition getitem :: "json \<Rightarrow> string \<Rightarrow> exn + json" where
  "getitem v k =
     (case v of
        JObj d \<Rightarrow> (case map_of d k of None \<Rightarrow> Inl (KeyError (JStr k)) | Some x \<Rightarrow> Inr x)
      | JList _ \<Rightarrow> Inl (TypeError ''list indices must be integers or slices, not str'')
      | JStr _ \<Rightarrow> Inl (TypeError ''string indices must be integers'')
      | _ \<Rightarrow> Inl (TypeError (type_name v @ '' object is not subscriptable'')))"

text \<open>\<^verbatim>\<open>v[0]\<close>.\<close>

definition getitem0 :: "json \<Rightarrow> exn + json" where
  "getitem0 v =
     (case v of
        JList xs \<Rightarrow> (case xs of [] \<Rightarrow> Inl (IndexError ''list index out of range'') | x # _ \<Rightarrow> Inr x)
      | JStr s \<Rightarrow> (case s of [] \<Rightarrow> Inl (IndexError ''string index out of range'')
                    | c # _ \<Rightarrow> Inr (JStr [c]))
      | JObj d \<Rightarrow> Inl (KeyError (JInt 0))
      | _ \<Rightarrow> Inl (TypeError (type_name v @ '' object is not subscriptable'')))"

text \<open>\<^verbatim>\<open>v.get(k, default)\<close>: only a \<^verbatim>\<open>dict\<close> has the method.\<close>

definition get_method :: "json \<Rightarrow> string \<Rightarrow> json \<Rightarrow> exn + json" where
  "get_method v k dflt =
     (case v of
        JObj d \<Rightarrow> Inr (case map_of d k of None \<Rightarrow> dflt | Some x \<Rightarrow> x)
      | _ \<Rightarrow> Inl (AttributeError (type_name v @ '' object has no attribute get'')))"

text \<open>\<^verbatim>\<open>unquote_plus(v)\<close> starts with \<^verbatim>\<open>v.replace\<close>, which only a \<^verbatim>\<open>str\<close> has.\<close>

definition unquote_plus :: "pylib \<Rightarrow> json \<Rightarrow> exn + string" where
  "unquote_plus lib v =
     (case v of
        JStr s \<Rightarrow> Inr (unquote_plus_str lib s)
      | _ \<Rightarrow> Inl (AttributeError (type_name v @ '' object has no attribute replace'')))"

text \<open>\<^verbatim>\<open>v.encode('utf-8')\<close>: only a \<^verbatim>\<open>str\<close> has the method.\<close>

definition encode_utf8 :: "json \<Rightarrow> exn + string" where
  "encode_utf8 v =
     (case v of
        JStr s \<Rightarrow> Inr s
      | _ \<Rightarrow> Inl (AttributeError (type_name v @ '' object has no attribute encode'')))"

text \<open>\<^verbatim>\<open>s.find(sub) >= 0\<close>, that is \<^verbatim>\<open>sub in s\<close> for two strings.\<close>

fun contains_str :: "string \<Rightarrow> string \<Rightarrow> bool" where
  "contains_str sub [] = (sub = [])"
| "contains_str sub (c # cs) = (take (length sub) (c # cs) = sub \<or> contains_str sub cs)"

text \<open>\<^verbatim>\<open>k in v\<close> with a string \<open>k\<close>: a key of a dict, an element of a list, a substring.\<close>

definition contains :: "string \<Rightarrow> json \<Rightarrow> exn + bool" where
  "contains k v =
     (case v of
        JObj d \<Rightarrow> Inr (map_of d k \<noteq> None)
      | JList xs \<Rightarrow> Inr (JStr k \<in> set xs)
      | JStr s \<Rightarrow> Inr (contains_str k s)
      | _ \<Rightarrow> Inl (TypeError (''argument of type '' @ type_name v @ '' is not iterable'')))"

text \<open>
  \<^verbatim>\<open>s.replace(old, new)\<close>: the occurrences of \<open>old\<close> found from the left, without
  overlap, each replaced by \<open>new\<close>. With an empty \<open>old\<close> Python puts \<open>new\<close> before every
  character and at the end.
\<close>

function replace :: "string \<Rightarrow> string \<Rightarrow> string \<Rightarrow> string" where
  "replace old new s =
     (if old = [] then new @ concat (map (\<lambda>c. c # new) s)
      else if s = [] then []
      else if take (length old) s = old then new @ replace old new (drop (length old) s)
      else hd s # replace old new (tl s))"
  by pat_completeness auto
termination
  by (relation "measure (\<lambda>(old, new, s). length s)") auto

text \<open>\<^verbatim>\<open>p.rfind(c)\<close>: the index of the last \<open>c\<close> in \<open>p\<close>, or \<open>-1\<close>.\<close>

fun rfind :: "char \<Rightarrow> string \<Rightarrow> int" where
  "rfind c [] = -1"
| "rfind c (x # xs) =
     (let r = rfind c xs in if 0 \<le> r then r + 1 else if x = c then 0 else -1)"

text \<open>
  \<^verbatim>\<open>os.path.basename\<close> of \<^verbatim>\<open>posixpath\<close> (the handler runs on Linux):
  \<^verbatim>\<open>i = p.rfind('/') + 1; return p[i:]\<close>.
\<close>

definition basename :: "string \<Rightarrow> string" where
  "basename p = (let i = rfind (CHR ''/'') p + 1 in drop (nat i) p)"

section \<open>The program\<close>

subsection \<open>Submitting the job\<close>

definition PROMPT_PREFIX :: string where
  "PROMPT_PREFIX =
     ''Please provide a comprehensive summary of the following transcription in approximately 4000 words. Focus on capturing the main points, key discussions, and important conclusions:''
     @ [CHR 0x0A, CHR 0x0A]"

text \<open>The local variables \<^verbatim>\<open>headers\<close> and \<^verbatim>\<open>payload\<close> of \<^verbatim>\<open>initiate_runpod_job\<close>.\<close>

definition run_headers :: "environ \<Rightarrow> headers" where
  "run_headers environ =
     [(''Authorization'', ''Bearer '' @ str_opt (RUNPOD_API_KEY environ)),
      (''Content-Type'', ''application/json'')]"

definition run_payload :: "string \<Rightarrow> json" where
  "run_payload text_data =
     JObj [(''input'',
            JObj [(''prompt'', JStr (PROMPT_PREFIX @ text_data)),
                  (''max_new_tokens'', JInt MAX_TOKENS),
                  (''temperature'', JFloat 7 (-1)),
                  (''top_p'', JFloat 9 (-1))])]"

text \<open>
  What follows \<^verbatim>\<open>response.json()\<close> in the \<^verbatim>\<open>try\<close> block: the test
  \<^verbatim>\<open>"id" not in result\<close>, and \<^verbatim>\<open>result['id']\<close> inside the printed f-string. None
  of the exceptions raised here is a \<^verbatim>\<open>RequestException\<close>, so each leaves the function.
\<close>

definition check_job_id :: "pylib \<Rightarrow> json \<Rightarrow> exn + json" where
  "check_job_id lib result =
     (case contains ''id'' result of
        Inl e \<Rightarrow> Inl e
      | Inr False \<Rightarrow>
          Inl (ValueError (''RunPod API did not return a job ID: '' @ py_str lib result))
      | Inr True \<Rightarrow> (case getitem result ''id'' of Inl e \<Rightarrow> Inl e | Inr _ \<Rightarrow> Inr result))"

definition initiate_runpod_job :: "pylib \<Rightarrow> environ \<Rightarrow> world \<Rightarrow> string \<Rightarrow> json res" where
  "initiate_runpod_job lib environ w text_data =
     (if \<not> truthy (RUNPOD_API_KEY environ) \<or> \<not> truthy (RUNPOD_ENDPOINT_URL environ)
      then (Inl (ValueError ''RunPod API key or endpoint URL not configured''), [])
      else
        let headers = run_headers environ;
            payload = run_payload text_data;
            url = str_opt (RUNPOD_ENDPOINT_URL environ) @ ''/run''
        in (case requests_post w url headers payload of
              RequestFailed m \<Rightarrow> Inl (RequestException m)
            | Replied result \<Rightarrow> check_job_id lib result,
            [HttpPost url headers payload]))"

subsection \<open>Polling\<close>

text \<open>
  The branch of the poll loop for the status \<^verbatim>\<open>COMPLETED\<close> (source lines 166 to 181),
  on the dict \<open>status_data\<close>.
\<close>

definition completed_result :: "pylib \<Rightarrow> (string \<times> json) list \<Rightarrow> exn + json" where
  "completed_result lib status_data =
     (case map_of status_data ''output'' of
        None \<Rightarrow>
          Inl (ValueError (''No output found in completed job: '' @ py_repr lib (JObj status_data)))
      | Some out \<Rightarrow>
          (case out of
             JStr s \<Rightarrow> Inr (JStr s)
           | JObj d \<Rightarrow>
               (case map_of d ''text'' of
                  Some t \<Rightarrow> Inr t
                | None \<Rightarrow> Inr (JStr (json_dumps lib out)))
           | JList xs \<Rightarrow>
               (case xs of
                  x # _ \<Rightarrow> get_method x ''text'' (JStr (json_dumps lib out))
                | [] \<Rightarrow> Inr (JStr (json_dumps lib out)))
           | _ \<Rightarrow> Inr (JStr (json_dumps lib out))))"

text \<open>
  The branch for \<^verbatim>\<open>FAILED\<close> and \<^verbatim>\<open>CANCELLED\<close> (source lines 183 to 187); \<open>st\<close> is the
  status string.
\<close>

definition failed_error :: "pylib \<Rightarrow> string \<Rightarrow> (string \<times> json) list \<Rightarrow> exn" where
  "failed_error lib st status_data =
     ValueError (''RunPod job failed with status: '' @ st @
       (case map_of status_data ''error'' of
          None \<Rightarrow> []
        | Some err \<Rightarrow> '', error: '' @ py_str lib err))"

text \<open>
  One pass through the body of the loop, after the reply has come: \<open>Some r\<close> when the body
  returns or raises \<open>r\<close> out of the function, \<open>None\<close> when the loop goes on. A reply that
  is not a dict has no \<^verbatim>\<open>get\<close>: an \<^verbatim>\<open>AttributeError\<close>, which the
  \<^verbatim>\<open>except\<close> clause of the loop does not catch.
\<close>

definition poll_step :: "pylib \<Rightarrow> json \<Rightarrow> (exn + json) option" where
  "poll_step lib reply =
     (case reply of
        JObj status_data \<Rightarrow>
          (if map_of status_data ''status'' = Some (JStr ''COMPLETED'')
           then Some (completed_result lib status_data)
           else if map_of status_data ''status'' = Some (JStr ''FAILED'')
           then Some (Inl (failed_error lib ''FAILED'' status_data))
           else if map_of status_data ''status'' = Some (JStr ''CANCELLED'')
           then Some (Inl (failed_error lib ''CANCELLED'' status_data))
           else None)
      | _ \<Rightarrow> Some (Inl (AttributeError (type_name reply @ '' object has no attribute get''))))"

text \<open>
  \<^verbatim>\<open>for attempt in range(MAX_POLLING_ATTEMPTS)\<close>, from \<open>attempt\<close> with \<open>n\<close> passes
  left. \<open>None\<close>: the loop ran to its end.
\<close>

fun poll_loop ::
  "pylib \<Rightarrow> world \<Rightarrow> string \<Rightarrow> headers \<Rightarrow> nat \<Rightarrow> nat \<Rightarrow> (exn + json) option \<times> effect list"
where
  "poll_loop lib w endpoint hs attempt 0 = (None, [])"
| "poll_loop lib w endpoint hs attempt (Suc n) =
     (case requests_get w attempt endpoint hs of
        RequestFailed m \<Rightarrow>
          (case poll_loop lib w endpoint hs (Suc attempt) n of
             (r, tr) \<Rightarrow> (r, HttpGet endpoint hs # Sleep POLL_INTERVAL # tr))
      | Replied reply \<Rightarrow>
          (case poll_step lib reply of
             Some r \<Rightarrow> (Some r, [HttpGet endpoint hs])
           | None \<Rightarrow>
               (case poll_loop lib w endpoint hs (Suc attempt) n of
                  (r, tr) \<Rightarrow> (r, HttpGet endpoint hs # Sleep POLL_INTERVAL # tr))))"

definition poll_headers :: "environ \<Rightarrow> headers" where
  "poll_headers environ = [(''Authorization'', ''Bearer '' @ str_opt (RUNPOD_API_KEY environ))]"

definition poll_endpoint :: "pylib \<Rightarrow> environ \<Rightarrow> json \<Rightarrow> string" where
  "poll_endpoint lib environ job_id =
     str_opt (RUNPOD_ENDPOINT_URL environ) @ ''/status/'' @ py_str lib job_id"

definition timeout_error :: "pylib \<Rightarrow> json \<Rightarrow> exn" where
  "timeout_error lib job_id =
     TimeoutError (''Timed out waiting for RunPod job '' @ py_str lib job_id @
                   '' after 60 polling attempts'')"

definition poll_runpod_job :: "pylib \<Rightarrow> environ \<Rightarrow> world \<Rightarrow> json \<Rightarrow> json res" where
  "poll_runpod_job lib environ w job_id =
     (case poll_loop lib w (poll_endpoint lib environ job_id) (poll_headers environ)
             0 MAX_POLLING_ATTEMPTS of
        (Some r, tr) \<Rightarrow> (r, tr)
      | (None, tr) \<Rightarrow> (Inl (timeout_error lib job_id), tr))"

subsection \<open>The handler\<close>

text \<open>
  Source lines 30 and 31: the bucket name and the decoded key of
  \<^verbatim>\<open>event['Records'][0]\<close>.
\<close>

definition first_record_s3 :: "json \<Rightarrow> exn + json" where
  "first_record_s3 event =
     (case getitem event ''Records'' of
        Inl e \<Rightarrow> Inl e
      | Inr records \<Rightarrow>
          (case getitem0 records of
             Inl e \<Rightarrow> Inl e
           | Inr record \<Rightarrow> getitem record ''s3''))"

definition parse_event :: "pylib \<Rightarrow> json \<Rightarrow> exn + json \<times> string" where
  "parse_event lib event =
     (case first_record_s3 event of
        Inl e \<Rightarrow> Inl e
      | Inr s3 \<Rightarrow>
          (case getitem s3 ''bucket'' of
             Inl e \<Rightarrow> Inl e
           | Inr b \<Rightarrow>
               (case getitem b ''name'' of
                  Inl e \<Rightarrow> Inl e
                | Inr bucket \<Rightarrow>
                    (case getitem s3 ''object'' of
                       Inl e \<Rightarrow> Inl e
                     | Inr ob \<Rightarrow>
                         (case getitem ob ''key'' of
                            Inl e \<Rightarrow> Inl e
                          | Inr k \<Rightarrow>
                              (case unquote_plus lib k of
                                 Inl e \<Rightarrow> Inl e
                               | Inr key \<Rightarrow> Inr (bucket, key)))))))"

record response =
  statusCode :: nat
  body :: string

definition retrieve :: "world \<Rightarrow> json \<Rightarrow> string \<Rightarrow> string res" where
  "retrieve w bucket key = (s3_get_object w bucket key, [S3Get bucket key])"

definition store :: "world \<Rightarrow> json \<Rightarrow> string \<Rightarrow> string \<Rightarrow> unit res" where
  "store w bucket key content =
     (case s3_put_object w bucket key content ''text/plain'' of
        Some e \<Rightarrow> Inl e
      | None \<Rightarrow> Inr (),
      [S3Put bucket key content ''text/plain''])"

definition output_key :: "environ \<Rightarrow> string \<Rightarrow> string" where
  "output_key environ key = OUTPUT_PREFIX environ @ replace ''.txt'' ''_summary.txt'' (basename key)"

definition output_bucket :: "environ \<Rightarrow> json \<Rightarrow> json" where
  "output_bucket environ bucket =
     (if OUTPUT_BUCKET environ \<noteq> [] then JStr (OUTPUT_BUCKET environ) else bucket)"

definition success_response :: "pylib \<Rightarrow> json \<Rightarrow> string \<Rightarrow> response" where
  "success_response lib out_bucket out_key =
     \<lparr>statusCode = 200,
      body = json_dumps lib (JObj
        [(''message'', JStr ''Summarization completed successfully''),
         (''summary_location'', JStr (''s3://'' @ py_str lib out_bucket @ ''/'' @ out_key))])\<rparr>"

definition error_response :: "pylib \<Rightarrow> exn \<Rightarrow> response" where
  "error_response lib e =
     \<lparr>statusCode = 500, body = json_dumps lib (JObj [(''error'', JStr (exn_str lib e))])\<rparr>"

text \<open>The body of the \<^verbatim>\<open>try\<close> block of \<^verbatim>\<open>lambda_handler\<close>, source lines 28 to 70.\<close>

definition pipeline :: "pylib \<Rightarrow> environ \<Rightarrow> world \<Rightarrow> json \<Rightarrow> response res" where
  "pipeline lib environ w event =
     bind_eff (pure_eff (parse_event lib event)) (\<lambda>(bucket, key).
     bind_eff (retrieve w bucket key) (\<lambda>text_data.
     bind_eff (initiate_runpod_job lib environ w text_data) (\<lambda>run_response.
     bind_eff (pure_eff (getitem run_response ''id'')) (\<lambda>job_id.
     bind_eff (poll_runpod_job lib environ w job_id) (\<lambda>summary.
     bind_eff (pure_eff (encode_utf8 summary)) (\<lambda>content.
     bind_eff (store w (output_bucket environ bucket) (output_key environ key) content) (\<lambda>_.
       (Inr (success_response lib (output_bucket environ bucket) (output_key environ key)),
        []))))))))"

text \<open>\<^verbatim>\<open>lambda_handler\<close>: the \<^verbatim>\<open>try\<close> block under \<^verbatim>\<open>except Exception\<close>.\<close>

definition lambda_handler :: "pylib \<Rightarrow> environ \<Rightarrow> world \<Rightarrow> json \<Rightarrow> response \<times> effect list" where
  "lambda_handler lib environ w event =
     (case pipeline lib environ w event of
        (Inr r, tr) \<Rightarrow> (r, tr)
      | (Inl e, tr) \<Rightarrow> (error_response lib e, tr))"

section \<open>Vocabulary of the specification\<close>

text \<open>
  What one poll attempt can observe. The status interface answers with a JSON object
  \<^verbatim>\<open>{status, output?, error?}\<close>; an attempt is \<open>pending\<close> when its request failed with a
  request error, or its reply is such an object and the status in it is none of the three
  terminal ones.
\<close>

definition request_error :: "http_outcome \<Rightarrow> bool" where
  "request_error out = (case out of RequestFailed m \<Rightarrow> True | Replied reply \<Rightarrow> False)"

definition status_object :: "http_outcome \<Rightarrow> bool" where
  "status_object out = (case out of Replied (JObj d) \<Rightarrow> True | _ \<Rightarrow> False)"

definition observes_terminal :: "http_outcome \<Rightarrow> bool" where
  "observes_terminal out =
     (case out of
        Replied (JObj d) \<Rightarrow>
          map_of d ''status'' = Some (JStr ''COMPLETED'') \<or>
          map_of d ''status'' = Some (JStr ''FAILED'') \<or>
          map_of d ''status'' = Some (JStr ''CANCELLED'')
      | _ \<Rightarrow> False)"

definition pending :: "http_outcome \<Rightarrow> bool" where
  "pending out = ((request_error out \<or> status_object out) \<and> \<not> observes_terminal out)"

text \<open>The loop goes on after this outcome: the property of the code that \<open>pending\<close> implies.\<close>

definition quiet :: "pylib \<Rightarrow> http_outcome \<Rightarrow> bool" where
  "quiet lib out =
     (case out of RequestFailed m \<Rightarrow> True | Replied reply \<Rightarrow> poll_step lib reply = None)"

text \<open>The effects of \<open>k\<close> attempts after each of which the loop went on.\<close>

fun waits :: "string \<Rightarrow> headers \<Rightarrow> nat \<Rightarrow> effect list" where
  "waits endpoint hs 0 = []"
| "waits endpoint hs (Suc k) = HttpGet endpoint hs # Sleep POLL_INTERVAL # waits endpoint hs k"

definition poll_effect :: "effect \<Rightarrow> bool" where
  "poll_effect e = (case e of HttpGet u h \<Rightarrow> True | Sleep s \<Rightarrow> True | _ \<Rightarrow> False)"

section \<open>A concrete setting for the evaluated examples\<close>

text \<open>
  The three library functions of the examples are stand-ins (\<open>unquote_plus_str\<close> is right
  on a key without \<^verbatim>\<open>+\<close> and \<^verbatim>\<open>%\<close>); no example depends on what they compute.
  The world of the examples holds the text \<^verbatim>\<open>hello world\<close> under every key, accepts
  every job and every write, and answers the poll attempts from the list \<open>replies\<close>, with
  a request error once the list is used up.
\<close>

definition sample_lib :: pylib where
  "sample_lib =
     \<lparr>json_dumps = (\<lambda>v. ''<json>''), py_repr = (\<lambda>v. ''<repr>''),
      unquote_plus_str = (\<lambda>s. s)\<rparr>"

definition sample_environ :: environ where
  "sample_environ =
     [''RUNPOD_API_KEY'' \<mapsto> ''secret'', ''RUNPOD_ENDPOINT_URL'' \<mapsto> ''https://api.example/v2/ep'']"

definition sample_world :: "http_outcome list \<Rightarrow> world" where
  "sample_world replies =
     \<lparr>s3_get_object = (\<lambda>b k. Inr ''hello world''),
      requests_post = (\<lambda>u h p. Replied (JObj [(''id'', JStr ''job-1'')])),
      requests_get =
        (\<lambda>n u h. if n < length replies then replies ! n else RequestFailed ''connection reset''),
      s3_put_object = (\<lambda>b k c t. None)\<rparr>"

definition sample_event :: "string \<Rightarrow> string \<Rightarrow> json" where
  "sample_event bucket key =
     JObj [(''Records'',
            JList [JObj [(''s3'', JObj [(''bucket'', JObj [(''name'', JStr bucket)]),
                                       (''object'', JObj [(''key'', JStr key)])])]])]"

definition sample_endpoint :: string where
  "sample_endpoint = ''https://api.example/v2/ep/status/job-1''"

definition sample_poll_headers :: headers where
  "sample_poll_headers = [(''Authorization'', ''Bearer secret'')]"

text \<open>A reply that reports the job completed with the summary \<open>s\<close> as the text of an object.\<close>

definition completed_text :: "string \<Rightarrow> http_outcome" where
  "completed_text s =
     Replied (JObj [(''status'', JStr ''COMPLETED''), (''output'', JObj [(''text'', JStr s)])])"

definition sample_run_headers :: headers where
  "sample_run_headers =
     [(''Authorization'', ''Bearer secret''), (''Content-Type'', ''application/json'')]"

definition sample_record :: "string \<Rightarrow> string \<Rightarrow> json" where
  "sample_record bucket key =
     JObj [(''s3'', JObj [(''bucket'', JObj [(''name'', JStr bucket)]),
                          (''object'', JObj [(''key'', JStr key)])])]"

definition sample_two_records :: json where
  "sample_two_records =
     JObj [(''Records'', JList [sample_record ''inbox'' ''calls/a.txt'',
                                sample_record ''other'' ''calls/b.txt''])]"

text \<open>
  Three worlds in which one stage fails: the object cannot be read, the inference API
  refuses the job, the summary cannot be written.
\<close>

definition failing_storage :: world where
  "failing_storage =
     (sample_world [])\<lparr>s3_get_object := (\<lambda>b k. Inl (StorageError ''NoSuchKey''))\<rparr>"

definition refusing_api :: world where
  "refusing_api =
     (sample_world [])\<lparr>requests_post := (\<lambda>u h p. RequestFailed ''503 Server Error'')\<rparr>"

definition failing_write :: world where
  "failing_write =
     (sample_world [completed_text ''short''])
       \<lparr>s3_put_object := (\<lambda>b k c t. Some (StorageError ''AccessDenied''))\<rparr>"

section \<open>Vocabulary for the effects and the payload\<close>

text \<open>The three kinds of effect that a record of an event could cause more than once.\<close>

definition is_read :: "effect \<Rightarrow> bool" where
  "is_read x = (case x of S3Get b k \<Rightarrow> True | _ \<Rightarrow> False)"

definition is_job :: "effect \<Rightarrow> bool" where
  "is_job x = (case x of HttpPost u h p \<Rightarrow> True | _ \<Rightarrow> False)"

definition is_write :: "effect \<Rightarrow> bool" where
  "is_write x = (case x of S3Put b k c t \<Rightarrow> True | _ \<Rightarrow> False)"

text \<open>The event that holds the record \<open>r\<close> and nothing else.\<close>

definition only_first_record :: "json \<Rightarrow> json" where
  "only_first_record r = JObj [(''Records'', JList [r])]"

text \<open>The names of the top-level fields of a JSON object, and \<^verbatim>\<open>payload["input"]["prompt"]\<close>.\<close>

definition object_fields :: "json \<Rightarrow> string list" where
  "object_fields v = (case v of JObj d \<Rightarrow> map fst d | _ \<Rightarrow> [])"

definition prompt_of :: "json \<Rightarrow> json option" where
  "prompt_of payload =
     (case payload of
        JObj d \<Rightarrow> (case map_of d ''input'' of
                     Some (JObj i) \<Rightarrow> map_of i ''prompt''
                   | _ \<Rightarrow> None)
      | _ \<Rightarrow> None)"

section \<open>The poll loop\<close>

lemma pending_quiet: "pending out \<Longrightarrow> quiet lib out"
  by (auto simp: pending_def quiet_def request_error_def status_object_def observes_terminal_def
      poll_step_def split: http_outcome.splits json.splits)

text \<open>\<open>k\<close> attempts after which the loop goes on leave the rest of the loop as it is.\<close>

lemma poll_loop_skip:
  "(\<And>i. i < k \<Longrightarrow> quiet lib (requests_get w (a + i) ep hs)) \<Longrightarrow>
   poll_loop lib w ep hs a (k + n) =
     (fst (poll_loop lib w ep hs (a + k) n),
      waits ep hs k @ snd (poll_loop lib w ep hs (a + k) n))"
proof (induction k arbitrary: a)
  case 0
  then show ?case by simp
next
  case (Suc k)
  have q0: "quiet lib (requests_get w a ep hs)"
    using Suc.prems [of 0] by simp
  have rest: "\<And>i. i < k \<Longrightarrow> quiet lib (requests_get w (Suc a + i) ep hs)"
    using Suc.prems [of "Suc _"] by simp
  have ih: "poll_loop lib w ep hs (Suc a) (k + n) =
     (fst (poll_loop lib w ep hs (Suc a + k) n),
      waits ep hs k @ snd (poll_loop lib w ep hs (Suc a + k) n))"
    using Suc.IH [OF rest] by simp
  show ?case
    using q0 ih by (simp add: quiet_def split: http_outcome.splits)
qed

lemma poll_loop_exhausted:
  assumes "\<And>i. i < n \<Longrightarrow> quiet lib (requests_get w i ep hs)"
  shows "poll_loop lib w ep hs 0 n = (None, waits ep hs n)"
  using poll_loop_skip [of n lib w 0 ep hs 0] assms by simp

lemma poll_loop_stops:
  assumes "\<And>i. i < k \<Longrightarrow> quiet lib (requests_get w i ep hs)"
    and "requests_get w k ep hs = Replied reply"
    and "poll_step lib reply = Some r"
  shows "poll_loop lib w ep hs 0 (k + Suc n) = (Some r, waits ep hs k @ [HttpGet ep hs])"
  using poll_loop_skip [of k lib w 0 ep hs "Suc n"] assms by simp

lemma poll_loop_effects: "e \<in> set (snd (poll_loop lib w ep hs a n)) \<Longrightarrow> poll_effect e"
proof (induction n arbitrary: a e)
  case 0
  then show ?case by simp
next
  case (Suc n)
  obtain r tr where rec: "poll_loop lib w ep hs (Suc a) n = (r, tr)"
    by (cases "poll_loop lib w ep hs (Suc a) n")
  have tail: "\<And>x. x \<in> set tr \<Longrightarrow> poll_effect x"
    using Suc.IH [of _ "Suc a"] rec by simp
  from Suc.prems rec show ?case
    by (auto simp: poll_effect_def dest: tail split: http_outcome.splits option.splits)
qed

lemma poll_runpod_job_effects:
  "e \<in> set (snd (poll_runpod_job lib environ w job_id)) \<Longrightarrow> poll_effect e"
  using poll_loop_effects [of e lib w "poll_endpoint lib environ job_id" "poll_headers environ"
      0 MAX_POLLING_ATTEMPTS]
  by (auto simp: poll_runpod_job_def split: prod.splits option.splits)

lemma sample_poll_endpoint [simp]:
  "poll_endpoint sample_lib sample_environ (JStr ''job-1'') = sample_endpoint"
  by (simp add: poll_endpoint_def sample_environ_def sample_endpoint_def RUNPOD_ENDPOINT_URL_def
      str_opt_def py_str_def)

lemma sample_poll_headers [simp]: "poll_headers sample_environ = sample_poll_headers"
  by (simp add: poll_headers_def sample_environ_def sample_poll_headers_def RUNPOD_API_KEY_def
      str_opt_def)

section \<open>A completed job\<close>

text \<open>What the \<^verbatim>\<open>COMPLETED\<close> branch returns for the shapes of output it provides for.\<close>

lemma completed_result_shapes:
  "map_of sd ''output'' = Some (JStr s) \<Longrightarrow> completed_result lib sd = Inr (JStr s)"
  "map_of sd ''output'' = Some (JObj d) \<Longrightarrow> map_of d ''text'' = Some t \<Longrightarrow>
     completed_result lib sd = Inr t"
  "map_of sd ''output'' = Some (JObj d) \<Longrightarrow> map_of d ''text'' = None \<Longrightarrow>
     completed_result lib sd = Inr (JStr (json_dumps lib (JObj d)))"
  "map_of sd ''output'' = Some (JList (JObj d # xs)) \<Longrightarrow> map_of d ''text'' = Some t \<Longrightarrow>
     completed_result lib sd = Inr t"
  "map_of sd ''output'' = Some (JList (JObj d # xs)) \<Longrightarrow> map_of d ''text'' = None \<Longrightarrow>
     completed_result lib sd = Inr (JStr (json_dumps lib (JList (JObj d # xs))))"
  "map_of sd ''output'' = Some (JList []) \<Longrightarrow>
     completed_result lib sd = Inr (JStr (json_dumps lib (JList [])))"
  by (simp_all add: completed_result_def get_method_def)

text \<open>
  Claim C1: a completed job whose output is a string, an object or a list is turned into
  one text result, with the JSON serialisation of the output as the fallback. The code
  does not do so for a list whose first element is not an object: for the reply
  \<^verbatim>\<open>{"status": "COMPLETED", "output": ["hello"]}\<close> the call
  \<^verbatim>\<open>status_data["output"][0].get(...)\<close> raises \<^verbatim>\<open>AttributeError\<close>, which is not a
  request error and so leaves \<^verbatim>\<open>poll_runpod_job\<close> after the first attempt. The branch
  for an object tests \<^verbatim>\<open>isinstance\<close> before it reads \<^verbatim>\<open>"text"\<close> and falls back
  otherwise; the branch for a list misses the test.
\<close>

theorem poll_completed_string_list_raises:
  "poll_runpod_job sample_lib sample_environ
     (sample_world [Replied (JObj [(''status'', JStr ''COMPLETED''),
                                   (''output'', JList [JStr ''hello''])])])
     (JStr ''job-1'')
   = (Inl (AttributeError ''str object has no attribute get''),
      [HttpGet sample_endpoint sample_poll_headers])"
proof -
  let ?reply = "JObj [(''status'', JStr ''COMPLETED''), (''output'', JList [JStr ''hello''])]"
  have step: "poll_step sample_lib ?reply = Some (Inl (AttributeError ''str object has no attribute get''))"
    by (simp add: poll_step_def completed_result_def get_method_def type_name_def)
  have "poll_loop sample_lib (sample_world [Replied ?reply]) sample_endpoint sample_poll_headers 0 (0 + Suc 59)
        = (Some (Inl (AttributeError ''str object has no attribute get'')),
           waits sample_endpoint sample_poll_headers 0 @ [HttpGet sample_endpoint sample_poll_headers])"
    by (rule poll_loop_stops [where reply = ?reply]) (simp_all add: step sample_world_def)
  then show ?thesis
    by (simp add: poll_runpod_job_def MAX_POLLING_ATTEMPTS_def)
qed

section \<open>Running out of attempts\<close>

text \<open>
  Claim C2: when none of the 60 attempts observes a terminal status, each attempt either
  failing with a request error (after which the loop sleeps and goes on) or receiving a
  status object with another status, \<^verbatim>\<open>poll_runpod_job\<close> raises \<^verbatim>\<open>TimeoutError\<close> and
  returns no value. It has then made 60 requests and slept after each of them.
\<close>

theorem poll_timeout:
  assumes "\<forall>i<MAX_POLLING_ATTEMPTS.
             pending (requests_get w i (poll_endpoint lib environ job_id) (poll_headers environ))"
  shows "poll_runpod_job lib environ w job_id =
           (Inl (timeout_error lib job_id),
            waits (poll_endpoint lib environ job_id) (poll_headers environ) MAX_POLLING_ATTEMPTS)"
proof -
  have "poll_loop lib w (poll_endpoint lib environ job_id) (poll_headers environ)
          0 MAX_POLLING_ATTEMPTS
        = (None, waits (poll_endpoint lib environ job_id) (poll_headers environ)
                   MAX_POLLING_ATTEMPTS)"
    using assms by (intro poll_loop_exhausted pending_quiet) simp
  then show ?thesis
    by (simp add: poll_runpod_job_def)
qed

theorem poll_timeout_witness:
  "fst (poll_runpod_job sample_lib sample_environ
          (sample_world [Replied (JObj [(''status'', JStr ''IN_QUEUE'')])]) (JStr ''job-1''))
     = Inl (TimeoutError ''Timed out waiting for RunPod job job-1 after 60 polling attempts'') \<and>
   length (snd (poll_runpod_job sample_lib sample_environ
          (sample_world [Replied (JObj [(''status'', JStr ''IN_QUEUE'')])]) (JStr ''job-1''))) = 120"
proof -
  let ?w = "sample_world [Replied (JObj [(''status'', JStr ''IN_QUEUE'')])]"
  have h: "\<forall>i<MAX_POLLING_ATTEMPTS. pending (requests_get ?w i sample_endpoint sample_poll_headers)"
    by (simp add: sample_world_def pending_def request_error_def status_object_def
        observes_terminal_def)
  have len: "\<And>k. length (waits sample_endpoint sample_poll_headers k) = 2 * k"
    subgoal for k by (induction k) simp_all
    done
  show ?thesis
    using h poll_timeout [of ?w sample_lib sample_environ "JStr ''job-1''"]
    by (simp add: timeout_error_def py_str_def len MAX_POLLING_ATTEMPTS_def)
qed

section \<open>A failed or cancelled job\<close>

lemma sublist_mid: "sublist x (p @ x @ q)"
  by (rule sublist_appendI)

lemma sublist_end: "sublist x (p @ s @ c @ x)"
  using sublist_appendI [of x "p @ s @ c" "[]"] by simp

lemma failed_error_detail:
  "map_of sd ''error'' = Some err \<Longrightarrow>
   sublist (py_str lib err)
     (''RunPod job failed with status: '' @ st @
       (case map_of sd ''error'' of None \<Rightarrow> [] | Some err \<Rightarrow> '', error: '' @ py_str lib err))"
  by (simp only: option.case sublist_end)

lemma poll_step_failed:
  assumes "map_of status_data ''status'' = Some (JStr st)"
    and "st = ''FAILED'' \<or> st = ''CANCELLED''"
  shows "poll_step lib (JObj status_data) = Some (Inl (failed_error lib st status_data))"
  using assms by (auto simp: poll_step_def)


lemma poll_runpod_job_stops:
  assumes "k < MAX_POLLING_ATTEMPTS"
    and "\<forall>i<k. pending (requests_get w i (poll_endpoint lib environ job_id) (poll_headers environ))"
    and "requests_get w k (poll_endpoint lib environ job_id) (poll_headers environ) = Replied reply"
    and "poll_step lib reply = Some r"
  shows "poll_runpod_job lib environ w job_id =
           (r, waits (poll_endpoint lib environ job_id) (poll_headers environ) k @
               [HttpGet (poll_endpoint lib environ job_id) (poll_headers environ)])"
proof -
  let ?ep = "poll_endpoint lib environ job_id" and ?hs = "poll_headers environ"
  define n where "n = MAX_POLLING_ATTEMPTS - Suc k"
  have n: "MAX_POLLING_ATTEMPTS = k + Suc n"
    using assms(1) by (simp add: n_def)
  have q: "\<And>i. i < k \<Longrightarrow> quiet lib (requests_get w i ?ep ?hs)"
    using assms(2) pending_quiet by blast
  have loop: "poll_loop lib w ?ep ?hs 0 MAX_POLLING_ATTEMPTS =
                (Some r, waits ?ep ?hs k @ [HttpGet ?ep ?hs])"
    unfolding n using q assms(3,4) by (rule poll_loop_stops)
  show ?thesis
    unfolding poll_runpod_job_def loop by simp
qed

text \<open>
  Claim C3: when an attempt receives a status object with status \<^verbatim>\<open>FAILED\<close> or
  \<^verbatim>\<open>CANCELLED\<close> (the attempts before it having gone on), \<^verbatim>\<open>poll_runpod_job\<close> raises
  a \<^verbatim>\<open>ValueError\<close> whose message contains the status and, when the object has an
  \<^verbatim>\<open>error\<close> field, that field as \<^verbatim>\<open>str\<close> prints it. The error leaves the loop at
  once: this request is the last effect, and no sleep follows it.
\<close>

theorem poll_failed_or_cancelled:
  assumes "k < MAX_POLLING_ATTEMPTS"
    and "\<forall>i<k. pending (requests_get w i (poll_endpoint lib environ job_id) (poll_headers environ))"
    and "requests_get w k (poll_endpoint lib environ job_id) (poll_headers environ)
           = Replied (JObj status_data)"
    and "map_of status_data ''status'' = Some (JStr st)"
    and "st = ''FAILED'' \<or> st = ''CANCELLED''"
  shows "\<exists>msg. poll_runpod_job lib environ w job_id =
           (Inl (ValueError msg),
            waits (poll_endpoint lib environ job_id) (poll_headers environ) k @
            [HttpGet (poll_endpoint lib environ job_id) (poll_headers environ)]) \<and>
           msg = ''RunPod job failed with status: '' @ st @
                 (case map_of status_data ''error'' of
                    None \<Rightarrow> [] | Some err \<Rightarrow> '', error: '' @ py_str lib err) \<and>
           sublist st msg \<and>
           (\<forall>err. map_of status_data ''error'' = Some err \<longrightarrow> sublist (py_str lib err) msg)"
proof -
  have step: "poll_step lib (JObj status_data) = Some (Inl (failed_error lib st status_data))"
    using assms(4,5) by (rule poll_step_failed)
  have run: "poll_runpod_job lib environ w job_id =
          (Inl (failed_error lib st status_data),
           waits (poll_endpoint lib environ job_id) (poll_headers environ) k @
            [HttpGet (poll_endpoint lib environ job_id) (poll_headers environ)])"
    using assms(1,2,3) step by (rule poll_runpod_job_stops)
  let ?msg = "''RunPod job failed with status: '' @ st @
                 (case map_of status_data ''error'' of
                    None \<Rightarrow> [] | Some err \<Rightarrow> '', error: '' @ py_str lib err)"
  have a: "poll_runpod_job lib environ w job_id =
          (Inl (ValueError ?msg),
           waits (poll_endpoint lib environ job_id) (poll_headers environ) k @
            [HttpGet (poll_endpoint lib environ job_id) (poll_headers environ)])"
    unfolding run failed_error_def by (rule refl)
  have b: "sublist st ?msg"
    by (rule sublist_mid)
  have c: "\<forall>err. map_of status_data ''error'' = Some err \<longrightarrow> sublist (py_str lib err) ?msg"
    by (intro allI impI failed_error_detail)
  show ?thesis
    by (rule exI [where x = ?msg]) (intro conjI a b c refl)
qed

theorem poll_failed_or_cancelled_witness:
  "poll_runpod_job sample_lib sample_environ
     (sample_world [RequestFailed ''read timed out'',
                    Replied (JObj [(''status'', JStr ''IN_PROGRESS'')]),
                    Replied (JObj [(''status'', JStr ''CANCELLED''), (''error'', JStr ''out of memory'')])])
     (JStr ''job-1'')
   = (Inl (ValueError ''RunPod job failed with status: CANCELLED, error: out of memory''),
      [HttpGet sample_endpoint sample_poll_headers, Sleep 5,
       HttpGet sample_endpoint sample_poll_headers, Sleep 5,
       HttpGet sample_endpoint sample_poll_headers])"
proof -
  let ?w = "sample_world [RequestFailed ''read timed out'',
                    Replied (JObj [(''status'', JStr ''IN_PROGRESS'')]),
                    Replied (JObj [(''status'', JStr ''CANCELLED''), (''error'', JStr ''out of memory'')])]"
  have k: "Suc (Suc 0) < MAX_POLLING_ATTEMPTS"
    by (simp add: MAX_POLLING_ATTEMPTS_def)
  have pend: "\<forall>i<Suc (Suc 0). pending (requests_get ?w i
                 (poll_endpoint sample_lib sample_environ (JStr ''job-1'')) (poll_headers sample_environ))"
    by (simp add: sample_world_def pending_def request_error_def status_object_def
        observes_terminal_def less_Suc_eq)
  have reply: "requests_get ?w (Suc (Suc 0))
                 (poll_endpoint sample_lib sample_environ (JStr ''job-1'')) (poll_headers sample_environ)
               = Replied (JObj [(''status'', JStr ''CANCELLED''), (''error'', JStr ''out of memory'')])"
    by (simp add: sample_world_def)
  have st: "map_of [(''status'', JStr ''CANCELLED''), (''error'', JStr ''out of memory'')] ''status''
              = Some (JStr ''CANCELLED'')"
    by simp
  show ?thesis
    using poll_failed_or_cancelled [OF k pend reply st]
    by (simp add: POLL_INTERVAL_def py_str_def)
qed

section \<open>The handler: what it returns and what it does\<close>

lemma fst_bind_eff:
  "fst (bind_eff m f) = (case fst m of Inl e \<Rightarrow> Inl e | Inr a \<Rightarrow> fst (f a))"
  by (cases m) (simp add: bind_eff_def split: sum.splits prod.splits)

lemma snd_bind_eff:
  "snd (bind_eff m f) = snd m @ (case fst m of Inl e \<Rightarrow> [] | Inr a \<Rightarrow> snd (f a))"
  by (cases m) (simp add: bind_eff_def split: sum.splits prod.splits)

text \<open>
  The effects of the \<^verbatim>\<open>try\<close> block, stage by stage: the read of the object, the
  submission, the poll attempts, the write of the summary; a stage that raises ends the
  list.
\<close>

lemma pipeline_trace:
  "snd (pipeline lib environ w event) =
     (case parse_event lib event of
        Inl e \<Rightarrow> []
      | Inr (bucket, key) \<Rightarrow>
          S3Get bucket key #
          (case s3_get_object w bucket key of
             Inl e \<Rightarrow> []
           | Inr text_data \<Rightarrow>
               snd (initiate_runpod_job lib environ w text_data) @
               (case fst (initiate_runpod_job lib environ w text_data) of
                  Inl e \<Rightarrow> []
                | Inr run_response \<Rightarrow>
                    (case getitem run_response ''id'' of
                       Inl e \<Rightarrow> []
                     | Inr job_id \<Rightarrow>
                         snd (poll_runpod_job lib environ w job_id) @
                         (case fst (poll_runpod_job lib environ w job_id) of
                            Inl e \<Rightarrow> []
                          | Inr summary \<Rightarrow>
                              (case encode_utf8 summary of
                                 Inl e \<Rightarrow> []
                               | Inr content \<Rightarrow>
                                   [S3Put (output_bucket environ bucket) (output_key environ key)
                                      content ''text/plain'']))))))"
  by (simp add: pipeline_def snd_bind_eff fst_bind_eff pure_eff_def retrieve_def store_def
      split: sum.splits prod.splits)

lemma pipeline_result:
  "fst (pipeline lib environ w event) =
     (case parse_event lib event of
        Inl e \<Rightarrow> Inl e
      | Inr (bucket, key) \<Rightarrow>
          (case s3_get_object w bucket key of
             Inl e \<Rightarrow> Inl e
           | Inr text_data \<Rightarrow>
               (case fst (initiate_runpod_job lib environ w text_data) of
                  Inl e \<Rightarrow> Inl e
                | Inr run_response \<Rightarrow>
                    (case getitem run_response ''id'' of
                       Inl e \<Rightarrow> Inl e
                     | Inr job_id \<Rightarrow>
                         (case fst (poll_runpod_job lib environ w job_id) of
                            Inl e \<Rightarrow> Inl e
                          | Inr summary \<Rightarrow>
                              (case encode_utf8 summary of
                                 Inl e \<Rightarrow> Inl e
                               | Inr content \<Rightarrow>
                                   (case s3_put_object w (output_bucket environ bucket)
                                           (output_key environ key) content ''text/plain'' of
                                      Some e \<Rightarrow> Inl e
                                    | None \<Rightarrow>
                                        Inr (success_response lib (output_bucket environ bucket)
                                               (output_key environ key)))))))))"
  by (simp add: pipeline_def snd_bind_eff fst_bind_eff pure_eff_def retrieve_def store_def
      split: sum.splits prod.splits option.splits)

lemma lambda_handler_trace: "snd (lambda_handler lib environ w event) = snd (pipeline lib environ w event)"
  by (simp add: lambda_handler_def split: prod.splits sum.splits)

lemma lambda_handler_result:
  "fst (lambda_handler lib environ w event) =
     (case fst (pipeline lib environ w event) of Inl e \<Rightarrow> error_response lib e | Inr r \<Rightarrow> r)"
  by (simp add: lambda_handler_def split: prod.splits sum.splits)

lemma initiate_effects:
  "x \<in> set (snd (initiate_runpod_job lib environ w text_data)) \<Longrightarrow>
   x = HttpPost (str_opt (RUNPOD_ENDPOINT_URL environ) @ ''/run'') (run_headers environ)
         (run_payload text_data)"
  by (simp add: initiate_runpod_job_def Let_def split: if_splits)

lemma put_in_trace:
  assumes "S3Put b k c t \<in> set (snd (lambda_handler lib environ w event))"
  shows "\<exists>bucket key. parse_event lib event = Inr (bucket, key) \<and>
           b = output_bucket environ bucket \<and> k = output_key environ key \<and> t = ''text/plain''"
proof (cases "parse_event lib event")
  case (Inl e)
  with assms show ?thesis
    by (simp add: lambda_handler_trace pipeline_trace)
next
  case (Inr bk)
  obtain bucket key where bk: "bk = (bucket, key)"
    by (cases bk)
  have no_post: "\<And>text_data. S3Put b k c t \<notin> set (snd (initiate_runpod_job lib environ w text_data))"
    using initiate_effects by fastforce
  have no_poll: "\<And>job_id. S3Put b k c t \<notin> set (snd (poll_runpod_job lib environ w job_id))"
    using poll_runpod_job_effects by (fastforce simp: poll_effect_def)
  from assms Inr bk no_post no_poll show ?thesis
    by (auto simp: lambda_handler_trace pipeline_trace split: sum.splits)
qed

lemma post_in_trace:
  assumes "HttpPost u h p \<in> set (snd (lambda_handler lib environ w event))"
  shows "\<exists>bucket key text_data. parse_event lib event = Inr (bucket, key) \<and>
           s3_get_object w bucket key = Inr text_data \<and> p = run_payload text_data"
proof (cases "parse_event lib event")
  case (Inl e)
  with assms show ?thesis
    by (simp add: lambda_handler_trace pipeline_trace)
next
  case (Inr bk)
  obtain bucket key where bk: "bk = (bucket, key)"
    by (cases bk)
  have post: "\<And>text_data. HttpPost u h p \<in> set (snd (initiate_runpod_job lib environ w text_data))
                \<Longrightarrow> p = run_payload text_data"
    using initiate_effects by fastforce
  have no_poll: "\<And>job_id. HttpPost u h p \<notin> set (snd (poll_runpod_job lib environ w job_id))"
    using poll_runpod_job_effects by (fastforce simp: poll_effect_def)
  show ?thesis
  proof (cases "s3_get_object w bucket key")
    case (Inl e)
    with assms \<open>parse_event lib event = Inr bk\<close> bk show ?thesis
      by (simp add: lambda_handler_trace pipeline_trace)
  next
    case got: (Inr text_data)
    with assms \<open>parse_event lib event = Inr bk\<close> bk no_poll
    have "HttpPost u h p \<in> set (snd (initiate_runpod_job lib environ w text_data))"
      by (auto simp: lambda_handler_trace pipeline_trace split: sum.splits)
    then have "p = run_payload text_data"
      by (rule post)
    with \<open>parse_event lib event = Inr bk\<close> bk got show ?thesis
      by simp
  qed
qed

lemma sample_run:
  "lambda_handler sample_lib sample_environ (sample_world [completed_text ''short'']) 
     (sample_event ''inbox'' ''calls/a.txt'')
   = (\<lparr>statusCode = 200, body = ''<json>''\<rparr>,
      [S3Get (JStr ''inbox'') ''calls/a.txt'',
       HttpPost ''https://api.example/v2/ep/run''
         [(''Authorization'', ''Bearer secret''), (''Content-Type'', ''application/json'')]
         (run_payload ''hello world''),
       HttpGet sample_endpoint sample_poll_headers,
       S3Put (JStr ''inbox'') ''summaries/a_summary.txt'' ''short'' ''text/plain''])"
  by code_simp

section \<open>The output key\<close>

lemma rfind_ge: "- 1 \<le> rfind c p"
  by (induction p) (auto simp: Let_def)

lemma rfind_none: "c \<notin> set p \<Longrightarrow> rfind c p = - 1"
  by (induction p) (auto simp: Let_def)

lemma rfind_append: "c \<notin> set f \<Longrightarrow> rfind c (d @ c # f) = int (length d)"
  by (induction d) (auto simp: Let_def rfind_none)

lemma basename_plain: "CHR ''/'' \<notin> set p \<Longrightarrow> basename p = p"
  by (simp add: basename_def rfind_none)

lemma basename_path: "CHR ''/'' \<notin> set f \<Longrightarrow> basename (d @ ''/'' @ f) = f"
proof -
  assume f: "CHR ''/'' \<notin> set f"
  have "rfind (CHR ''/'') (d @ CHR ''/'' # f) = int (length d)"
    using f by (rule rfind_append)
  moreover have "nat (int (length d) + 1) = Suc (length d)"
    by simp
  ultimately show ?thesis
    by (simp add: basename_def)
qed

text \<open>
  Claim C4: the key under which the summary is stored is a function of the input key and
  of \<^verbatim>\<open>OUTPUT_PREFIX\<close> alone. Whenever two invocations, on any events, libraries, worlds
  and environments with the same prefix, parse the same input key and reach the write,
  they write under the same key: the prefix followed by the basename of the input key with
  each \<^verbatim>\<open>.txt\<close> replaced by \<^verbatim>\<open>_summary.txt\<close>.
\<close>

theorem output_key_deterministic:
  assumes "parse_event lib1 event1 = Inr (bucket1, key)"
    and "parse_event lib2 event2 = Inr (bucket2, key)"
    and "OUTPUT_PREFIX environ1 = OUTPUT_PREFIX environ2"
    and "S3Put b1 k1 c1 t1 \<in> set (snd (lambda_handler lib1 environ1 w1 event1))"
    and "S3Put b2 k2 c2 t2 \<in> set (snd (lambda_handler lib2 environ2 w2 event2))"
  shows "k1 = k2 \<and>
         k1 = OUTPUT_PREFIX environ1 @ replace ''.txt'' ''_summary.txt'' (basename key)"
proof -
  have "k1 = output_key environ1 key"
    using put_in_trace [OF assms(4)] assms(1) by auto
  moreover have "k2 = output_key environ2 key"
    using put_in_trace [OF assms(5)] assms(2) by auto
  ultimately show ?thesis
    using assms(3) by (simp add: output_key_def)
qed

theorem output_key_deterministic_witness:
  "''summaries/a_summary.txt'' =
     OUTPUT_PREFIX sample_environ @ replace ''.txt'' ''_summary.txt'' (basename ''calls/a.txt'')"
proof -
  have p1: "parse_event sample_lib (sample_event ''inbox'' ''calls/a.txt'')
              = Inr (JStr ''inbox'', ''calls/a.txt'')"
    by code_simp
  have p2: "parse_event sample_lib (sample_event ''archive'' ''calls/a.txt'')
              = Inr (JStr ''archive'', ''calls/a.txt'')"
    by code_simp
  have r1: "S3Put (JStr ''inbox'') ''summaries/a_summary.txt'' ''short'' ''text/plain''
              \<in> set (snd (lambda_handler sample_lib sample_environ
                    (sample_world [completed_text ''short'']) (sample_event ''inbox'' ''calls/a.txt'')))"
    by (simp add: sample_run)
  have r2: "S3Put (JStr ''archive'') ''summaries/a_summary.txt'' ''other'' ''text/plain''
              \<in> set (snd (lambda_handler sample_lib sample_environ
                    (sample_world [RequestFailed ''reset'', completed_text ''other''])
                    (sample_event ''archive'' ''calls/a.txt'')))"
    by code_simp
  show ?thesis
    using output_key_deterministic [OF p1 p2 refl r1 r2] by simp
qed

section \<open>The output bucket\<close>

text \<open>
  Claim C9: when the handler writes the summary, it has read the object from the bucket
  named in the event, and it writes to that same bucket when \<^verbatim>\<open>OUTPUT_BUCKET\<close> is unset
  or empty, and to the bucket \<^verbatim>\<open>OUTPUT_BUCKET\<close> names otherwise, whatever the input bucket.
\<close>

theorem summary_bucket:
  assumes "parse_event lib event = Inr (bucket, key)"
    and "S3Put b k c t \<in> set (snd (lambda_handler lib environ w event))"
  shows "S3Get bucket key \<in> set (snd (lambda_handler lib environ w event)) \<and>
         (environ ''OUTPUT_BUCKET'' = None \<or> environ ''OUTPUT_BUCKET'' = Some [] \<longrightarrow> b = bucket) \<and>
         (\<forall>v. environ ''OUTPUT_BUCKET'' = Some v \<and> v \<noteq> [] \<longrightarrow> b = JStr v)"
proof -
  have b: "b = output_bucket environ bucket"
    using put_in_trace [OF assms(2)] assms(1) by auto
  have "snd (lambda_handler lib environ w event) \<noteq> []"
    using assms(2) by auto
  then have get: "S3Get bucket key \<in> set (snd (lambda_handler lib environ w event))"
    using assms(1) by (simp add: lambda_handler_trace pipeline_trace)
  from b get show ?thesis
    by (auto simp: output_bucket_def OUTPUT_BUCKET_def)
qed

theorem summary_bucket_witness:
  "S3Get (JStr ''inbox'') ''calls/a.txt''
     \<in> set (snd (lambda_handler sample_lib sample_environ
                   (sample_world [completed_text ''short'']) (sample_event ''inbox'' ''calls/a.txt''))) \<and>
   S3Get (JStr ''inbox'') ''calls/a.txt''
     \<in> set (snd (lambda_handler sample_lib (sample_environ(''OUTPUT_BUCKET'' \<mapsto> ''results''))
                   (sample_world [completed_text ''short'']) (sample_event ''inbox'' ''calls/a.txt'')))"
proof -
  have p: "parse_event sample_lib (sample_event ''inbox'' ''calls/a.txt'')
              = Inr (JStr ''inbox'', ''calls/a.txt'')"
    by code_simp
  have r1: "S3Put (JStr ''inbox'') ''summaries/a_summary.txt'' ''short'' ''text/plain''
              \<in> set (snd (lambda_handler sample_lib sample_environ
                    (sample_world [completed_text ''short'']) (sample_event ''inbox'' ''calls/a.txt'')))"
    by (simp add: sample_run)
  have r2: "S3Put (JStr ''results'') ''summaries/a_summary.txt'' ''short'' ''text/plain''
              \<in> set (snd (lambda_handler sample_lib (sample_environ(''OUTPUT_BUCKET'' \<mapsto> ''results''))
                    (sample_world [completed_text ''short'']) (sample_event ''inbox'' ''calls/a.txt'')))"
    by code_simp
  show ?thesis
    using summary_bucket [OF p r1] summary_bucket [OF p r2] by simp
qed

section \<open>Only the first record\<close>

lemma parse_event_first_record:
  assumes "getitem event ''Records'' = Inr (JList (r # rest))"
  shows "parse_event lib event = parse_event lib (only_first_record r)"
  using assms by (simp add: parse_event_def first_record_s3_def getitem0_def getitem_def
      only_first_record_def)

lemma parse_event_fields:
  assumes "getitem event ''Records'' = Inr (JList (r # rest))"
    and "parse_event lib event = Inr (bucket, key)"
  shows "\<exists>s3 bo ob kv. getitem r ''s3'' = Inr s3 \<and>
           getitem s3 ''bucket'' = Inr bo \<and> getitem bo ''name'' = Inr bucket \<and>
           getitem s3 ''object'' = Inr ob \<and> getitem ob ''key'' = Inr kv \<and>
           unquote_plus lib kv = Inr key"
  using assms by (auto simp: parse_event_def first_record_s3_def getitem0_def split: sum.splits)

lemma filter_poll_effects:
  assumes "\<And>x. poll_effect x \<Longrightarrow> \<not> P x"
  shows "filter P (snd (poll_runpod_job lib environ w job_id)) = []"
  using assms poll_runpod_job_effects by (fastforce simp: filter_empty_conv)

lemma initiate_trace_length: "length (snd (initiate_runpod_job lib environ w text_data)) \<le> 1"
  by (simp add: initiate_runpod_job_def Let_def)

lemma initiate_trace_jobs:
  "filter is_read (snd (initiate_runpod_job lib environ w text_data)) = []"
  "filter is_write (snd (initiate_runpod_job lib environ w text_data)) = []"
  "length (filter is_job (snd (initiate_runpod_job lib environ w text_data))) \<le> Suc 0"
  by (simp_all add: initiate_runpod_job_def Let_def is_read_def is_write_def)

lemma trace_counts:
  "length (filter is_read (snd (pipeline lib environ w event))) \<le> 1 \<and>
   length (filter is_job (snd (pipeline lib environ w event))) \<le> 1 \<and>
   length (filter is_write (snd (pipeline lib environ w event))) \<le> 1"
proof -
  have poll: "\<And>job_id. filter is_read (snd (poll_runpod_job lib environ w job_id)) = []"
      "\<And>job_id. filter is_job (snd (poll_runpod_job lib environ w job_id)) = []"
      "\<And>job_id. filter is_write (snd (poll_runpod_job lib environ w job_id)) = []"
    by (rule filter_poll_effects; simp add: poll_effect_def is_read_def is_job_def is_write_def
        split: effect.splits)+
  show ?thesis
    by (simp add: pipeline_trace poll initiate_trace_jobs is_read_def [of "S3Get _ _"]
        is_job_def [of "S3Get _ _"] is_write_def [of "S3Get _ _"]
        is_read_def [of "S3Put _ _ _ _"] is_job_def [of "S3Put _ _ _ _"]
        is_write_def [of "S3Put _ _ _ _"]
        split: sum.splits prod.splits)
qed

lemma parse_event_of_fields:
  assumes "getitem event ''Records'' = Inr (JList (r # rest))"
    and "getitem r ''s3'' = Inr s3"
    and "getitem s3 ''bucket'' = Inr bo" and "getitem bo ''name'' = Inr bucket"
    and "getitem s3 ''object'' = Inr ob" and "getitem ob ''key'' = Inr kv"
    and "unquote_plus lib kv = Inr key"
  shows "parse_event lib event = Inr (bucket, key)"
  using assms by (simp add: parse_event_def first_record_s3_def getitem0_def)

lemma parsed_record_is_read:
  assumes "parse_event lib event = Inr (bucket, key)"
  shows "\<exists>tr. snd (lambda_handler lib environ w event) = S3Get bucket key # tr \<and>
              filter is_read tr = []"
proof -
  obtain tr where tr: "snd (pipeline lib environ w event) = S3Get bucket key # tr"
    using assms by (simp add: pipeline_trace)
  have "length (filter is_read (snd (pipeline lib environ w event))) \<le> 1"
    using trace_counts [of lib environ w event] by (rule conjunct1)
  then have "filter is_read tr = []"
    by (simp add: tr is_read_def)
  with tr show ?thesis
    by (simp add: lambda_handler_trace)
qed

text \<open>
  Claim C10: of an event whose \<^verbatim>\<open>Records\<close> is a list with a first record \<open>r\<close>, the
  handler processes \<open>r\<close> only. Its result and its effects are those of the event that
  holds \<open>r\<close> alone, whatever the other records are; it reads at most one object, submits at
  most one job and writes at most one summary; the object it reads is the one whose
  bucket is \<^verbatim>\<open>r['s3']['bucket']['name']\<close> and whose key is \<^verbatim>\<open>unquote_plus\<close> of
  \<^verbatim>\<open>r['s3']['object']['key']\<close>; and when \<open>r\<close> has these fields and the key decodes,
  the handler takes that bucket and that decoded key, its first effect is the read of that
  object, and no other read follows.
\<close>

theorem only_first_record_processed:
  assumes "getitem event ''Records'' = Inr (JList (r # rest))"
  shows "lambda_handler lib environ w event = lambda_handler lib environ w (only_first_record r) \<and>
         length (filter is_read (snd (lambda_handler lib environ w event))) \<le> 1 \<and>
         length (filter is_job (snd (lambda_handler lib environ w event))) \<le> 1 \<and>
         length (filter is_write (snd (lambda_handler lib environ w event))) \<le> 1 \<and>
         (\<forall>bucket key. S3Get bucket key \<in> set (snd (lambda_handler lib environ w event)) \<longrightarrow>
            (\<exists>s3 bo ob kv. getitem r ''s3'' = Inr s3 \<and>
               getitem s3 ''bucket'' = Inr bo \<and> getitem bo ''name'' = Inr bucket \<and>
               getitem s3 ''object'' = Inr ob \<and> getitem ob ''key'' = Inr kv \<and>
               unquote_plus lib kv = Inr key)) \<and>
         (\<forall>s3 bo ob kv bucket key.
            getitem r ''s3'' = Inr s3 \<and>
            getitem s3 ''bucket'' = Inr bo \<and> getitem bo ''name'' = Inr bucket \<and>
            getitem s3 ''object'' = Inr ob \<and> getitem ob ''key'' = Inr kv \<and>
            unquote_plus lib kv = Inr key \<longrightarrow>
            parse_event lib event = Inr (bucket, key) \<and>
            (\<exists>tr. snd (lambda_handler lib environ w event) = S3Get bucket key # tr \<and>
                  filter is_read tr = []))"
proof -
  have same: "lambda_handler lib environ w event = lambda_handler lib environ w (only_first_record r)"
    using parse_event_first_record [OF assms, of lib]
    by (simp add: lambda_handler_def pipeline_def)
  have fields: "\<exists>s3 bo ob kv. getitem r ''s3'' = Inr s3 \<and>
               getitem s3 ''bucket'' = Inr bo \<and> getitem bo ''name'' = Inr bucket \<and>
               getitem s3 ''object'' = Inr ob \<and> getitem ob ''key'' = Inr kv \<and>
               unquote_plus lib kv = Inr key"
    if "S3Get bucket key \<in> set (snd (lambda_handler lib environ w event))" for bucket key
  proof -
    have no_post: "\<And>text_data. S3Get bucket key \<notin> set (snd (initiate_runpod_job lib environ w text_data))"
      using initiate_effects by fastforce
    have no_poll: "\<And>job_id. S3Get bucket key \<notin> set (snd (poll_runpod_job lib environ w job_id))"
      using poll_runpod_job_effects by (fastforce simp: poll_effect_def)
    have "parse_event lib event = Inr (bucket, key)"
      using that no_post no_poll
      by (auto simp: lambda_handler_trace pipeline_trace split: sum.splits)
    with assms show ?thesis
      by (rule parse_event_fields)
  qed
  have counts:
    "length (filter is_read (snd (lambda_handler lib environ w event))) \<le> 1 \<and>
     length (filter is_job (snd (lambda_handler lib environ w event))) \<le> 1 \<and>
     length (filter is_write (snd (lambda_handler lib environ w event))) \<le> 1"
    using trace_counts [of lib environ w event] by (simp only: lambda_handler_trace)
  from fields have all_fields:
    "\<forall>bucket key. S3Get bucket key \<in> set (snd (lambda_handler lib environ w event)) \<longrightarrow>
            (\<exists>s3 bo ob kv. getitem r ''s3'' = Inr s3 \<and>
               getitem s3 ''bucket'' = Inr bo \<and> getitem bo ''name'' = Inr bucket \<and>
               getitem s3 ''object'' = Inr ob \<and> getitem ob ''key'' = Inr kv \<and>
               unquote_plus lib kv = Inr key)"
    by (intro allI impI)
  have taken: "parse_event lib event = Inr (bucket, key) \<and>
            (\<exists>tr. snd (lambda_handler lib environ w event) = S3Get bucket key # tr \<and>
                  filter is_read tr = [])"
    if "getitem r ''s3'' = Inr s3 \<and>
        getitem s3 ''bucket'' = Inr bo \<and> getitem bo ''name'' = Inr bucket \<and>
        getitem s3 ''object'' = Inr ob \<and> getitem ob ''key'' = Inr kv \<and>
        unquote_plus lib kv = Inr key" for s3 bo ob kv bucket key
  proof -
    have p: "parse_event lib event = Inr (bucket, key)"
      using parse_event_of_fields [OF assms] that by blast
    from p parsed_record_is_read [OF p] show ?thesis
      by (rule conjI)
  qed
  then have all_taken: "\<forall>s3 bo ob kv bucket key.
            getitem r ''s3'' = Inr s3 \<and>
            getitem s3 ''bucket'' = Inr bo \<and> getitem bo ''name'' = Inr bucket \<and>
            getitem s3 ''object'' = Inr ob \<and> getitem ob ''key'' = Inr kv \<and>
            unquote_plus lib kv = Inr key \<longrightarrow>
            parse_event lib event = Inr (bucket, key) \<and>
            (\<exists>tr. snd (lambda_handler lib environ w event) = S3Get bucket key # tr \<and>
                  filter is_read tr = [])"
    by (intro allI impI)
  from counts have c1: "length (filter is_read (snd (lambda_handler lib environ w event))) \<le> 1"
    and c2: "length (filter is_job (snd (lambda_handler lib environ w event))) \<le> 1"
    and c3: "length (filter is_write (snd (lambda_handler lib environ w event))) \<le> 1"
    by (rule conjunct1, rule conjunct2 [THEN conjunct1], rule conjunct2 [THEN conjunct2])
  show ?thesis
    by (intro conjI same c1 c2 c3 all_fields all_taken)
qed

theorem only_first_record_processed_witness:
  "lambda_handler sample_lib sample_environ (sample_world [completed_text ''short''])
     sample_two_records
   = lambda_handler sample_lib sample_environ (sample_world [completed_text ''short''])
       (only_first_record (sample_record ''inbox'' ''calls/a.txt'')) \<and>
   length (filter is_read (snd (lambda_handler sample_lib sample_environ
     (sample_world [completed_text ''short'']) sample_two_records))) \<le> 1 \<and>
   length (filter is_job (snd (lambda_handler sample_lib sample_environ
     (sample_world [completed_text ''short'']) sample_two_records))) \<le> 1 \<and>
   length (filter is_write (snd (lambda_handler sample_lib sample_environ
     (sample_world [completed_text ''short'']) sample_two_records))) \<le> 1 \<and>
   parse_event sample_lib sample_two_records = Inr (JStr ''inbox'', ''calls/a.txt'') \<and>
   filter is_read (snd (lambda_handler sample_lib sample_environ
     (sample_world [completed_text ''short'']) sample_two_records))
   = [S3Get (JStr ''inbox'') ''calls/a.txt'']"
proof -
  have h: "getitem sample_two_records ''Records''
             = Inr (JList (sample_record ''inbox'' ''calls/a.txt'' #
                           [sample_record ''other'' ''calls/b.txt'']))"
    by (simp add: sample_two_records_def getitem_def)
  have f: "getitem (sample_record ''inbox'' ''calls/a.txt'') ''s3''
             = Inr (JObj [(''bucket'', JObj [(''name'', JStr ''inbox'')]),
                          (''object'', JObj [(''key'', JStr ''calls/a.txt'')])]) \<and>
           getitem (JObj [(''bucket'', JObj [(''name'', JStr ''inbox'')]),
                          (''object'', JObj [(''key'', JStr ''calls/a.txt'')])]) ''bucket''
             = Inr (JObj [(''name'', JStr ''inbox'')]) \<and>
           getitem (JObj [(''name'', JStr ''inbox'')]) ''name'' = Inr (JStr ''inbox'') \<and>
           getitem (JObj [(''bucket'', JObj [(''name'', JStr ''inbox'')]),
                          (''object'', JObj [(''key'', JStr ''calls/a.txt'')])]) ''object''
             = Inr (JObj [(''key'', JStr ''calls/a.txt'')]) \<and>
           getitem (JObj [(''key'', JStr ''calls/a.txt'')]) ''key'' = Inr (JStr ''calls/a.txt'') \<and>
           unquote_plus sample_lib (JStr ''calls/a.txt'') = Inr ''calls/a.txt''"
    by (simp add: sample_record_def getitem_def unquote_plus_def sample_lib_def)
  note t = only_first_record_processed [OF h, of sample_lib sample_environ
        "sample_world [completed_text ''short'']"]
  note a = t [THEN conjunct1]
  note c1 = t [THEN conjunct2, THEN conjunct1]
  note c2 = t [THEN conjunct2, THEN conjunct2, THEN conjunct1]
  note c3 = t [THEN conjunct2, THEN conjunct2, THEN conjunct2, THEN conjunct1]
  note taken = t [THEN conjunct2, THEN conjunct2, THEN conjunct2, THEN conjunct2, THEN conjunct2]
  from taken f have "parse_event sample_lib sample_two_records = Inr (JStr ''inbox'', ''calls/a.txt'') \<and>
            (\<exists>tr. snd (lambda_handler sample_lib sample_environ
                    (sample_world [completed_text ''short'']) sample_two_records)
                  = S3Get (JStr ''inbox'') ''calls/a.txt'' # tr \<and> filter is_read tr = [])"
    by blast
  then have p: "parse_event sample_lib sample_two_records = Inr (JStr ''inbox'', ''calls/a.txt'')"
    and r: "filter is_read (snd (lambda_handler sample_lib sample_environ
     (sample_world [completed_text ''short'']) sample_two_records))
   = [S3Get (JStr ''inbox'') ''calls/a.txt'']"
    by (auto simp: is_read_def)
  show ?thesis
    by (intro conjI a c1 c2 c3 p r)
qed

section \<open>The body of the request to the inference API\<close>

text \<open>
  Claim C7 says that the body of the POST to \<^verbatim>\<open>/run\<close> has exactly the four top-level
  fields \<^verbatim>\<open>prompt\<close>, \<^verbatim>\<open>max_tokens\<close>, \<^verbatim>\<open>temperature\<close> and \<^verbatim>\<open>top_p\<close>. The body the code
  posts has one top-level field, \<^verbatim>\<open>input\<close>, and no field named \<^verbatim>\<open>max_tokens\<close> at all.
\<close>

theorem run_payload_fields_counterexample:
  "snd (initiate_runpod_job sample_lib sample_environ (sample_world []) ''hello world'')
     = [HttpPost ''https://api.example/v2/ep/run'' sample_run_headers (run_payload ''hello world'')] \<and>
   object_fields (run_payload ''hello world'') = [''input''] \<and>
   ''max_tokens'' \<notin> set (object_fields (run_payload ''hello world''))"
  by code_simp

text \<open>
  Claim C7, amended: with the key and the endpoint configured, the one request of
  \<^verbatim>\<open>initiate_runpod_job\<close> is a POST to the endpoint followed by \<^verbatim>\<open>/run\<close> whose body is
  the object with the single field \<^verbatim>\<open>input\<close>, itself the object with exactly the four
  fields \<^verbatim>\<open>prompt\<close> (the instruction followed by the text), \<^verbatim>\<open>max_new_tokens\<close> (16000),
  \<^verbatim>\<open>temperature\<close> (0.7) and \<^verbatim>\<open>top_p\<close> (0.9).
\<close>

theorem run_payload_shape:
  assumes "truthy (RUNPOD_API_KEY environ)" and "truthy (RUNPOD_ENDPOINT_URL environ)"
  shows "snd (initiate_runpod_job lib environ w text_data) =
           [HttpPost (str_opt (RUNPOD_ENDPOINT_URL environ) @ ''/run'') (run_headers environ)
              (JObj [(''input'',
                      JObj [(''prompt'', JStr (PROMPT_PREFIX @ text_data)),
                            (''max_new_tokens'', JInt 16000),
                            (''temperature'', JFloat 7 (- 1)),
                            (''top_p'', JFloat 9 (- 1))])])]"
  using assms by (simp add: initiate_runpod_job_def Let_def run_payload_def MAX_TOKENS_def)

theorem run_payload_shape_witness:
  "snd (initiate_runpod_job sample_lib sample_environ (sample_world []) ''hello world'') =
     [HttpPost ''https://api.example/v2/ep/run'' sample_run_headers
        (JObj [(''input'',
                JObj [(''prompt'', JStr (PROMPT_PREFIX @ ''hello world'')),
                      (''max_new_tokens'', JInt 16000),
                      (''temperature'', JFloat 7 (- 1)),
                      (''top_p'', JFloat 9 (- 1))])])]"
proof -
  have k: "truthy (RUNPOD_API_KEY sample_environ)"
    by (simp add: truthy_def RUNPOD_API_KEY_def sample_environ_def)
  have u: "truthy (RUNPOD_ENDPOINT_URL sample_environ)"
    by (simp add: truthy_def RUNPOD_ENDPOINT_URL_def sample_environ_def)
  have url: "str_opt (RUNPOD_ENDPOINT_URL sample_environ) @ ''/run'' = ''https://api.example/v2/ep/run''"
    by (simp add: str_opt_def RUNPOD_ENDPOINT_URL_def sample_environ_def)
  have hs: "run_headers sample_environ = sample_run_headers"
    by (simp add: run_headers_def sample_run_headers_def str_opt_def RUNPOD_API_KEY_def
        sample_environ_def)
  show ?thesis
    using run_payload_shape [OF k u, of sample_lib "sample_world []" "''hello world''"]
    unfolding url hs .
qed

section \<open>The text on its way to the inference API\<close>

text \<open>
  Claim C8 says that the prompt submitted to the inference API is the retrieved text
  itself. The handler that retrieves \<^verbatim>\<open>hello world\<close> posts a prompt that is another
  string: the instruction comes first.
\<close>

theorem prompt_not_text_counterexample:
  "s3_get_object (sample_world [completed_text ''short'']) (JStr ''inbox'') ''calls/a.txt''
     = Inr ''hello world'' \<and>
   HttpPost ''https://api.example/v2/ep/run'' sample_run_headers (run_payload ''hello world'')
     \<in> set (snd (lambda_handler sample_lib sample_environ
                   (sample_world [completed_text ''short'']) (sample_event ''inbox'' ''calls/a.txt''))) \<and>
   prompt_of (run_payload ''hello world'') \<noteq> Some (JStr ''hello world'')"
  by code_simp

text \<open>
  Claim C8, amended: every job the handler submits carries as its prompt the fixed
  instruction followed by the text retrieved from storage; the text is the end of the
  prompt, unchanged.
\<close>

theorem prompt_is_prefixed_text:
  assumes "HttpPost u h p \<in> set (snd (lambda_handler lib environ w event))"
  shows "\<exists>bucket key text_data. parse_event lib event = Inr (bucket, key) \<and>
           s3_get_object w bucket key = Inr text_data \<and>
           prompt_of p = Some (JStr (PROMPT_PREFIX @ text_data)) \<and>
           suffix text_data (PROMPT_PREFIX @ text_data)"
proof -
  obtain bucket key text_data where "parse_event lib event = Inr (bucket, key)"
      "s3_get_object w bucket key = Inr text_data" "p = run_payload text_data"
    using post_in_trace [OF assms] by blast
  moreover have "prompt_of (run_payload text_data) = Some (JStr (PROMPT_PREFIX @ text_data))"
    by (simp add: prompt_of_def run_payload_def)
  moreover have "suffix text_data (PROMPT_PREFIX @ text_data)"
    by (rule suffixI) (rule refl)
  ultimately show ?thesis
    by blast
qed

theorem prompt_is_prefixed_text_witness:
  "prompt_of (run_payload ''hello world'') = Some (JStr (PROMPT_PREFIX @ ''hello world''))"
proof -
  have post: "HttpPost ''https://api.example/v2/ep/run'' sample_run_headers (run_payload ''hello world'')
     \<in> set (snd (lambda_handler sample_lib sample_environ
                   (sample_world [completed_text ''short'']) (sample_event ''inbox'' ''calls/a.txt'')))"
    by code_simp
  have p: "parse_event sample_lib (sample_event ''inbox'' ''calls/a.txt'')
              = Inr (JStr ''inbox'', ''calls/a.txt'')"
    by code_simp
  have g: "\<And>b k. s3_get_object (sample_world [completed_text ''short'']) b k = Inr ''hello world''"
    by (simp add: sample_world_def)
  show ?thesis
    using prompt_is_prefixed_text [OF post] by (auto simp: p g)
qed

section \<open>A missing configuration\<close>

text \<open>
  Claim C6 says that a missing key or endpoint makes the handler fail before any other
  work that could be avoided, storage retrieval included. The check is in
  \<^verbatim>\<open>initiate_runpod_job\<close>, which the handler calls after it has read the object: with
  no configuration at all the object is read first, and when that read fails it is the
  storage error that is reported.
\<close>

theorem config_error_after_retrieval_counterexample:
  "lambda_handler sample_lib Map.empty (sample_world []) (sample_event ''inbox'' ''calls/a.txt'')
     = (error_response sample_lib (ValueError ''RunPod API key or endpoint URL not configured''),
        [S3Get (JStr ''inbox'') ''calls/a.txt'']) \<and>
   lambda_handler sample_lib Map.empty failing_storage (sample_event ''inbox'' ''calls/a.txt'')
     = (error_response sample_lib (StorageError ''NoSuchKey''),
        [S3Get (JStr ''inbox'') ''calls/a.txt''])"
  by code_simp

lemma initiate_missing_config:
  assumes "\<not> truthy (RUNPOD_API_KEY environ) \<or> \<not> truthy (RUNPOD_ENDPOINT_URL environ)"
  shows "initiate_runpod_job lib environ w text_data =
           (Inl (ValueError ''RunPod API key or endpoint URL not configured''), [])"
  using assms by (auto simp: initiate_runpod_job_def)

lemma truthy_missing: "\<not> truthy v \<longleftrightarrow> v = None \<or> v = Some []"
  by (cases v) (simp_all add: truthy_def)

text \<open>
  Claim C6, amended: when \<^verbatim>\<open>RUNPOD_API_KEY\<close> or \<^verbatim>\<open>RUNPOD_ENDPOINT_URL\<close> is unset or
  empty, \<^verbatim>\<open>initiate_runpod_job\<close> raises the configuration error before any request is
  made; the handler makes no request to the inference API and writes nothing (its only
  possible effect is the read of the object), it answers with status 500, and when the
  event parses and the object is read the error it reports is the configuration error,
  raised after that read.
\<close>

theorem missing_config_no_request:
  assumes "environ ''RUNPOD_API_KEY'' = None \<or> environ ''RUNPOD_API_KEY'' = Some [] \<or>
           environ ''RUNPOD_ENDPOINT_URL'' = None \<or> environ ''RUNPOD_ENDPOINT_URL'' = Some []"
  shows "initiate_runpod_job lib environ w text_data =
           (Inl (ValueError ''RunPod API key or endpoint URL not configured''), []) \<and>
         (\<forall>x \<in> set (snd (lambda_handler lib environ w event)). is_read x) \<and>
         statusCode (fst (lambda_handler lib environ w event)) = 500 \<and>
         (\<forall>bucket key text_data.
            parse_event lib event = Inr (bucket, key) \<and>
            s3_get_object w bucket key = Inr text_data \<longrightarrow>
            lambda_handler lib environ w event =
              (error_response lib (ValueError ''RunPod API key or endpoint URL not configured''),
               [S3Get bucket key]))"
proof -
  have cfg: "\<not> truthy (RUNPOD_API_KEY environ) \<or> \<not> truthy (RUNPOD_ENDPOINT_URL environ)"
    using assms by (auto simp: truthy_missing RUNPOD_API_KEY_def RUNPOD_ENDPOINT_URL_def)
  have init: "\<And>t. initiate_runpod_job lib environ w t =
           (Inl (ValueError ''RunPod API key or endpoint URL not configured''), [])"
    using cfg by (rule initiate_missing_config)
  have tr: "\<forall>x \<in> set (snd (lambda_handler lib environ w event)). is_read x"
    by (auto simp: lambda_handler_trace pipeline_trace init is_read_def
        split: sum.splits prod.splits)
  have res: "\<exists>e. fst (pipeline lib environ w event) = Inl e"
    by (simp add: pipeline_result init split: sum.splits prod.splits)
  then have st: "statusCode (fst (lambda_handler lib environ w event)) = 500"
    by (auto simp: lambda_handler_result error_response_def)
  have full: "lambda_handler lib environ w event =
              (error_response lib (ValueError ''RunPod API key or endpoint URL not configured''),
               [S3Get bucket key])"
    if "parse_event lib event = Inr (bucket, key) \<and> s3_get_object w bucket key = Inr text_data"
    for bucket key text_data
  proof -
    have "fst (lambda_handler lib environ w event) =
            error_response lib (ValueError ''RunPod API key or endpoint URL not configured'')"
      using that by (simp add: lambda_handler_result pipeline_result init)
    moreover have "snd (lambda_handler lib environ w event) = [S3Get bucket key]"
      using that by (simp add: lambda_handler_trace pipeline_trace init)
    ultimately show ?thesis
      by (simp add: prod_eq_iff)
  qed
  from full have full_all: "\<forall>bucket key text_data.
            parse_event lib event = Inr (bucket, key) \<and>
            s3_get_object w bucket key = Inr text_data \<longrightarrow>
            lambda_handler lib environ w event =
              (error_response lib (ValueError ''RunPod API key or endpoint URL not configured''),
               [S3Get bucket key])"
    by (intro allI impI)
  show ?thesis
    by (intro conjI init tr st full_all)
qed

theorem missing_config_no_request_witness:
  "initiate_runpod_job sample_lib (sample_environ(''RUNPOD_API_KEY'' \<mapsto> [])) (sample_world [])
       ''hello world''
     = (Inl (ValueError ''RunPod API key or endpoint URL not configured''), []) \<and>
   statusCode (fst (lambda_handler sample_lib (sample_environ(''RUNPOD_API_KEY'' \<mapsto> []))
      (sample_world []) (sample_event ''inbox'' ''calls/a.txt''))) = 500"
proof -
  have h: "(sample_environ(''RUNPOD_API_KEY'' \<mapsto> [])) ''RUNPOD_API_KEY'' = None \<or>
           (sample_environ(''RUNPOD_API_KEY'' \<mapsto> [])) ''RUNPOD_API_KEY'' = Some [] \<or>
           (sample_environ(''RUNPOD_API_KEY'' \<mapsto> [])) ''RUNPOD_ENDPOINT_URL'' = None \<or>
           (sample_environ(''RUNPOD_API_KEY'' \<mapsto> [])) ''RUNPOD_ENDPOINT_URL'' = Some []"
    by simp
  show ?thesis
    using missing_config_no_request [OF h, of sample_lib "sample_world []" "''hello world''"
        "sample_event ''inbox'' ''calls/a.txt''"]
    by (elim conjE) (intro conjI, assumption+)
qed

section \<open>Exceptions stop at the handler\<close>

text \<open>
  Claim C5: whatever exception the body of the \<^verbatim>\<open>try\<close> block raises,
  \<^verbatim>\<open>lambda_handler\<close> returns the result with status 500 whose body is the JSON object
  \<^verbatim>\<open>{"error": str(e)}\<close>; and so for an exception of each stage: parsing the event,
  retrieving the object, submitting the job, polling, and storing the summary. The model
  is a total function: the handler returns in every case.
\<close>

theorem lambda_handler_catches_every_exception:
  "(\<forall>e. fst (pipeline lib environ w event) = Inl e \<longrightarrow>
      fst (lambda_handler lib environ w event) =
        \<lparr>statusCode = 500, body = json_dumps lib (JObj [(''error'', JStr (exn_str lib e))])\<rparr>) \<and>
   (\<forall>e. parse_event lib event = Inl e \<longrightarrow>
      lambda_handler lib environ w event = (error_response lib e, [])) \<and>
   (\<forall>bucket key e.
      parse_event lib event = Inr (bucket, key) \<and> s3_get_object w bucket key = Inl e \<longrightarrow>
      lambda_handler lib environ w event = (error_response lib e, [S3Get bucket key])) \<and>
   (\<forall>bucket key text_data e.
      parse_event lib event = Inr (bucket, key) \<and> s3_get_object w bucket key = Inr text_data \<and>
      fst (initiate_runpod_job lib environ w text_data) = Inl e \<longrightarrow>
      fst (lambda_handler lib environ w event) = error_response lib e) \<and>
   (\<forall>bucket key text_data run_response job_id e.
      parse_event lib event = Inr (bucket, key) \<and> s3_get_object w bucket key = Inr text_data \<and>
      fst (initiate_runpod_job lib environ w text_data) = Inr run_response \<and>
      getitem run_response ''id'' = Inr job_id \<and>
      fst (poll_runpod_job lib environ w job_id) = Inl e \<longrightarrow>
      fst (lambda_handler lib environ w event) = error_response lib e) \<and>
   (\<forall>bucket key text_data run_response job_id summary content e.
      parse_event lib event = Inr (bucket, key) \<and> s3_get_object w bucket key = Inr text_data \<and>
      fst (initiate_runpod_job lib environ w text_data) = Inr run_response \<and>
      getitem run_response ''id'' = Inr job_id \<and>
      fst (poll_runpod_job lib environ w job_id) = Inr summary \<and>
      encode_utf8 summary = Inr content \<and>
      s3_put_object w (output_bucket environ bucket) (output_key environ key) content
        ''text/plain'' = Some e \<longrightarrow>
      fst (lambda_handler lib environ w event) = error_response lib e)"
proof (intro conjI allI impI)
  fix e
  assume "fst (pipeline lib environ w event) = Inl e"
  then show "fst (lambda_handler lib environ w event) =
        \<lparr>statusCode = 500, body = json_dumps lib (JObj [(''error'', JStr (exn_str lib e))])\<rparr>"
    by (simp add: lambda_handler_result error_response_def)
next
  fix e
  assume "parse_event lib event = Inl e"
  then show "lambda_handler lib environ w event = (error_response lib e, [])"
    by (simp add: prod_eq_iff lambda_handler_result lambda_handler_trace pipeline_result
        pipeline_trace)
next
  fix bucket key e
  assume "parse_event lib event = Inr (bucket, key) \<and> s3_get_object w bucket key = Inl e"
  then show "lambda_handler lib environ w event = (error_response lib e, [S3Get bucket key])"
    by (simp add: prod_eq_iff lambda_handler_result lambda_handler_trace pipeline_result
        pipeline_trace)
next
  fix bucket key text_data e
  assume "parse_event lib event = Inr (bucket, key) \<and> s3_get_object w bucket key = Inr text_data \<and>
      fst (initiate_runpod_job lib environ w text_data) = Inl e"
  then show "fst (lambda_handler lib environ w event) = error_response lib e"
    by (simp add: lambda_handler_result pipeline_result)
next
  fix bucket key text_data run_response job_id e
  assume "parse_event lib event = Inr (bucket, key) \<and> s3_get_object w bucket key = Inr text_data \<and>
      fst (initiate_runpod_job lib environ w text_data) = Inr run_response \<and>
      getitem run_response ''id'' = Inr job_id \<and>
      fst (poll_runpod_job lib environ w job_id) = Inl e"
  then show "fst (lambda_handler lib environ w event) = error_response lib e"
    by (simp add: lambda_handler_result pipeline_result)
next
  fix bucket key text_data run_response job_id summary content e
  assume "parse_event lib event = Inr (bucket, key) \<and> s3_get_object w bucket key = Inr text_data \<and>
      fst (initiate_runpod_job lib environ w text_data) = Inr run_response \<and>
      getitem run_response ''id'' = Inr job_id \<and>
      fst (poll_runpod_job lib environ w job_id) = Inr summary \<and>
      encode_utf8 summary = Inr content \<and>
      s3_put_object w (output_bucket environ bucket) (output_key environ key) content
        ''text/plain'' = Some e"
  then show "fst (lambda_handler lib environ w event) = error_response lib e"
    by (simp add: lambda_handler_result pipeline_result)
qed

theorem lambda_handler_catches_every_exception_witness:
  "lambda_handler sample_lib sample_environ (sample_world []) (JObj [])
     = (error_response sample_lib (KeyError (JStr ''Records'')), []) \<and>
   lambda_handler sample_lib sample_environ failing_storage (sample_event ''inbox'' ''calls/a.txt'')
     = (error_response sample_lib (StorageError ''NoSuchKey''),
        [S3Get (JStr ''inbox'') ''calls/a.txt'']) \<and>
   fst (lambda_handler sample_lib sample_environ refusing_api (sample_event ''inbox'' ''calls/a.txt''))
     = error_response sample_lib (RequestException ''503 Server Error'') \<and>
   fst (lambda_handler sample_lib sample_environ (sample_world [])
          (sample_event ''inbox'' ''calls/a.txt''))
     = error_response sample_lib
         (TimeoutError ''Timed out waiting for RunPod job job-1 after 60 polling attempts'') \<and>
   fst (lambda_handler sample_lib sample_environ failing_write (sample_event ''inbox'' ''calls/a.txt''))
     = error_response sample_lib (StorageError ''AccessDenied'') \<and>
   fst (lambda_handler sample_lib sample_environ
          (sample_world [Replied (JObj [(''status'', JStr ''COMPLETED''),
                                        (''output'', JObj [(''text'', JInt 5)])])])
          (sample_event ''inbox'' ''calls/a.txt''))
     = \<lparr>statusCode = 500,
        body = json_dumps sample_lib
                 (JObj [(''error'', JStr ''int object has no attribute encode'')])\<rparr>"
proof -
  let ?ev = "sample_event ''inbox'' ''calls/a.txt''"
  have p: "\<And>w. parse_event sample_lib ?ev = Inr (JStr ''inbox'', ''calls/a.txt'')"
    by code_simp
  have c1: "parse_event sample_lib (JObj []) = Inl (KeyError (JStr ''Records''))"
    by code_simp
  have c2: "parse_event sample_lib ?ev = Inr (JStr ''inbox'', ''calls/a.txt'') \<and>
            s3_get_object failing_storage (JStr ''inbox'') ''calls/a.txt''
              = Inl (StorageError ''NoSuchKey'')"
    by code_simp
  have c3: "parse_event sample_lib ?ev = Inr (JStr ''inbox'', ''calls/a.txt'') \<and>
            s3_get_object refusing_api (JStr ''inbox'') ''calls/a.txt'' = Inr ''hello world'' \<and>
            fst (initiate_runpod_job sample_lib sample_environ refusing_api ''hello world'')
              = Inl (RequestException ''503 Server Error'')"
    by code_simp
  have c4: "parse_event sample_lib ?ev = Inr (JStr ''inbox'', ''calls/a.txt'') \<and>
            s3_get_object (sample_world []) (JStr ''inbox'') ''calls/a.txt'' = Inr ''hello world'' \<and>
            fst (initiate_runpod_job sample_lib sample_environ (sample_world []) ''hello world'')
              = Inr (JObj [(''id'', JStr ''job-1'')]) \<and>
            getitem (JObj [(''id'', JStr ''job-1'')]) ''id'' = Inr (JStr ''job-1'') \<and>
            fst (poll_runpod_job sample_lib sample_environ (sample_world []) (JStr ''job-1''))
              = Inl (TimeoutError
                  ''Timed out waiting for RunPod job job-1 after 60 polling attempts'')"
    by code_simp
  have c5: "parse_event sample_lib ?ev = Inr (JStr ''inbox'', ''calls/a.txt'') \<and>
            s3_get_object failing_write (JStr ''inbox'') ''calls/a.txt'' = Inr ''hello world'' \<and>
            fst (initiate_runpod_job sample_lib sample_environ failing_write ''hello world'')
              = Inr (JObj [(''id'', JStr ''job-1'')]) \<and>
            getitem (JObj [(''id'', JStr ''job-1'')]) ''id'' = Inr (JStr ''job-1'') \<and>
            fst (poll_runpod_job sample_lib sample_environ failing_write (JStr ''job-1''))
              = Inr (JStr ''short'') \<and>
            encode_utf8 (JStr ''short'') = Inr ''short'' \<and>
            s3_put_object failing_write (output_bucket sample_environ (JStr ''inbox''))
              (output_key sample_environ ''calls/a.txt'') ''short'' ''text/plain''
              = Some (StorageError ''AccessDenied'')"
    by code_simp
  have c6: "fst (pipeline sample_lib sample_environ
          (sample_world [Replied (JObj [(''status'', JStr ''COMPLETED''),
                                        (''output'', JObj [(''text'', JInt 5)])])]) ?ev)
        = Inl (AttributeError ''int object has no attribute encode'')"
    by code_simp
  have x: "exn_str sample_lib (AttributeError ''int object has no attribute encode'')
             = ''int object has no attribute encode''"
    by (simp add: exn_str_def)
  note t1 = lambda_handler_catches_every_exception
      [of sample_lib sample_environ "sample_world []" "JObj []",
        THEN conjunct2, THEN conjunct1, rule_format, OF c1]
  note t2 = lambda_handler_catches_every_exception
      [of sample_lib sample_environ failing_storage ?ev,
        THEN conjunct2, THEN conjunct2, THEN conjunct1, rule_format, OF c2]
  note t3 = lambda_handler_catches_every_exception
      [of sample_lib sample_environ refusing_api ?ev,
        THEN conjunct2, THEN conjunct2, THEN conjunct2, THEN conjunct1, rule_format, OF c3]
  note t4 = lambda_handler_catches_every_exception
      [of sample_lib sample_environ "sample_world []" ?ev,
        THEN conjunct2, THEN conjunct2, THEN conjunct2, THEN conjunct2, THEN conjunct1,
        rule_format, OF c4]
  note t5 = lambda_handler_catches_every_exception
      [of sample_lib sample_environ failing_write ?ev,
        THEN conjunct2, THEN conjunct2, THEN conjunct2, THEN conjunct2, THEN conjunct2,
        rule_format, OF c5]
  note t6 = lambda_handler_catches_every_exception
      [of sample_lib sample_environ _ ?ev, THEN conjunct1, rule_format, OF c6]
  show ?thesis
    by (intro conjI t1 t2 t3 t4 t5) (rule t6 [unfolded x])
qed

end
